theory Spec2Isabelle
  imports Complex_Main "HOL-Library.Sublist" "HOL-Library.Word"
begin

section \<open>Python values, exceptions and library functions\<close>

text \<open>
  Webhook payloads, stored events and HTTP response bodies are JSON documents as Python's
  \<open>json\<close> module reads them: \<open>None\<close>, booleans, integers, floats, strings, lists and
  dictionaries. A dictionary is an association list read with \<open>map_of\<close>; a Python
  dictionary never has a key twice. Strings are \<open>string\<close>: the code points 0..255,
  which is what a header decoded as Latin-1 holds.
\<close>

datatype json =
    JNull
  | JBool bool
  | JInt int
  | JFloat rat
  | JStr string
  | JArr "json list"
  | JObj "(string \<times> json) list"

text \<open>
  The exceptions the modelled code can meet. In Python 3 \<open>IOError\<close> is \<open>OSError\<close>,
  \<open>FileNotFoundError\<close> is a subclass of it, \<open>json.JSONDecodeError\<close>,
  \<open>UnicodeDecodeError\<close> and \<open>UnicodeEncodeError\<close> are subclasses of \<open>ValueError\<close>, requests'
  \<open>RequestException\<close> is a subclass of \<open>OSError\<close>, \<open>HTTPError\<close> and
  \<open>ConnectionError\<close> are subclasses of \<open>RequestException\<close>, and requests'
  \<open>JSONDecodeError\<close> is both a \<open>RequestException\<close> and a \<open>ValueError\<close>.
  \<open>APIError\<close> stands for whatever the model client raises.
\<close>

datatype error =
    TypeError
  | AttributeError
  | KeyError
  | ValueError
  | JSONDecodeError
  | UnicodeDecodeError
  | UnicodeEncodeError
  | OSError
  | FileNotFoundError
  | ConnectionError
  | HTTPError nat
  | ResponseJSONDecodeError
  | APIError
  | BadRequest
  | IndexError

fun is_OSError :: "error \<Rightarrow> bool" where
  "is_OSError OSError = True"
| "is_OSError FileNotFoundError = True"
| "is_OSError ConnectionError = True"
| "is_OSError (HTTPError _) = True"
| "is_OSError ResponseJSONDecodeError = True"
| "is_OSError _ = False"

fun is_RequestException :: "error \<Rightarrow> bool" where
  "is_RequestException ConnectionError = True"
| "is_RequestException (HTTPError _) = True"
| "is_RequestException ResponseJSONDecodeError = True"
| "is_RequestException _ = False"

fun is_HTTPError :: "error \<Rightarrow> bool" where
  "is_HTTPError (HTTPError _) = True"
| "is_HTTPError _ = False"

fun is_ValueError :: "error \<Rightarrow> bool" where
  "is_ValueError ValueError = True"
| "is_ValueError JSONDecodeError = True"
| "is_ValueError UnicodeDecodeError = True"
| "is_ValueError UnicodeEncodeError = True"
| "is_ValueError ResponseJSONDecodeError = True"
| "is_ValueError _ = False"

text \<open>\<open>except Exception\<close> catches every exception of the model.\<close>

fun is_Exception :: "error \<Rightarrow> bool" where
  "is_Exception _ = True"

text \<open>
  Library functions whose results the code only passes on are parameters: \<open>str_of\<close> is
  \<open>str(v)\<close> for a value that is not a string, \<open>title\<close> is \<open>str.title\<close>, \<open>set_iter\<close> is
  the order in which CPython iterates \<open>set(xs)\<close>, and \<open>hmac_sha256\<close> is the digest of
  \<open>hmac.new(key, msg, hashlib.sha256)\<close>.
\<close>

record pylib =
  str_of :: "json \<Rightarrow> string"
  title :: "string \<Rightarrow> string"
  set_iter :: "string list \<Rightarrow> string list"
  hmac_sha256 :: "8 word list \<Rightarrow> 8 word list \<Rightarrow> 8 word list"

text \<open>What an f-string writes for \<open>{v}\<close>.\<close>

fun fmt :: "'a pylib_scheme \<Rightarrow> json \<Rightarrow> string" where
  "fmt L (JStr s) = s"
| "fmt L v = str_of L v"

text \<open>Python's truth value of a JSON value, as \<open>or\<close> and \<open>if\<close> read it.\<close>

fun truthy :: "json \<Rightarrow> bool" where
  "truthy JNull = False"
| "truthy (JBool b) = b"
| "truthy (JInt i) = (i \<noteq> 0)"
| "truthy (JFloat r) = (r \<noteq> 0)"
| "truthy (JStr s) = (s \<noteq> [])"
| "truthy (JArr xs) = (xs \<noteq> [])"
| "truthy (JObj kvs) = (kvs \<noteq> [])"

text \<open>\<open>d.get(k, default)\<close>: an \<open>AttributeError\<close> when \<open>d\<close> is not a dictionary.\<close>

fun dict_get :: "json \<Rightarrow> string \<Rightarrow> json \<Rightarrow> error + json" where
  "dict_get (JObj kvs) k d = Inr (case map_of kvs k of None \<Rightarrow> d | Some v \<Rightarrow> v)"
| "dict_get _ k d = Inl AttributeError"

text \<open>\<open>d[k]\<close>: a \<open>KeyError\<close> on a missing key; a list, a string or a number indexed by a
  string is a \<open>TypeError\<close>.\<close>

fun subscript :: "json \<Rightarrow> string \<Rightarrow> error + json" where
  "subscript (JObj kvs) k = (case map_of kvs k of None \<Rightarrow> Inl KeyError | Some v \<Rightarrow> Inr v)"
| "subscript _ k = Inl TypeError"

text \<open>\<open>len(v)\<close>: defined on strings, lists and dictionaries.\<close>

fun py_len :: "json \<Rightarrow> error + nat" where
  "py_len (JStr s) = Inr (length s)"
| "py_len (JArr xs) = Inr (length xs)"
| "py_len (JObj kvs) = Inr (length (remdups (map fst kvs)))"
| "py_len _ = Inl TypeError"

text \<open>The decimal numeral of a natural number, as \<open>str(n)\<close> writes it.\<close>

definition digit_char :: "nat \<Rightarrow> char" where
  "digit_char d = ''0123456789'' ! d"

fun str_nat :: "nat \<Rightarrow> string" where
  "str_nat n = (if n < 10 then [digit_char n] else str_nat (n div 10) @ [digit_char (n mod 10)])"

declare str_nat.simps [simp del]

text \<open>
  \<open>s.replace(old, new)\<close>: occurrences of \<open>old\<close> are replaced from the left, without
  overlap; with an empty \<open>old\<close>, \<open>new\<close> is written before every character and at the end.
\<close>

fun replace_ne :: "string \<Rightarrow> string \<Rightarrow> string \<Rightarrow> string" where
  "replace_ne old new [] = []"
| "replace_ne old new (c # cs) =
     (if prefix old (c # cs) then new @ replace_ne old new (drop (length old - 1) cs)
      else c # replace_ne old new cs)"

definition py_replace :: "string \<Rightarrow> string \<Rightarrow> string \<Rightarrow> string" where
  "py_replace old new s =
     (if old = [] then new @ concat (map (\<lambda>c. c # new) s) else replace_ne old new s)"

text \<open>\<open>sep.join(xs)\<close>.\<close>

fun join :: "string \<Rightarrow> string list \<Rightarrow> string" where
  "join sep [] = []"
| "join sep [x] = x"
| "join sep (x # y # ys) = x @ sep @ join sep (y # ys)"

section \<open>Event summaries: \<open>EventManager.summarize_event\<close>\<close>

text \<open>\<open>repo_info.get('full_name') or repo_info.get('name') or 'unknown-repo'\<close>.\<close>

definition repo_name_of :: "json \<Rightarrow> error + json" where
  "repo_name_of repo_info =
     (case dict_get repo_info ''full_name'' JNull of
        Inl e \<Rightarrow> Inl e
      | Inr a \<Rightarrow>
          if truthy a then Inr a
          else (case dict_get repo_info ''name'' JNull of
                  Inl e \<Rightarrow> Inl e
                | Inr b \<Rightarrow> if truthy b then Inr b else Inr (JStr ''unknown-repo'')))"

text \<open>\<open>payload.get('ref', '').replace('refs/heads/', '')\<close>: only a string has
  \<open>replace\<close> with this meaning.\<close>

fun branch_of :: "json \<Rightarrow> error + string" where
  "branch_of (JStr r) = Inr (py_replace ''refs/heads/'' [] r)"
| "branch_of _ = Inl AttributeError"

definition summarize_event :: "'a pylib_scheme \<Rightarrow> string \<Rightarrow> json \<Rightarrow> error + string" where
  "summarize_event L event_type payload =
     (case dict_get payload ''repository'' (JObj []) of
        Inl e \<Rightarrow> Inl e
      | Inr repo_info \<Rightarrow>
     (case repo_name_of repo_info of
        Inl e \<Rightarrow> Inl e
      | Inr repo_name \<Rightarrow>
          if event_type = ''push'' then
            (case dict_get payload ''commits'' (JArr []) of
               Inl e \<Rightarrow> Inl e
             | Inr commits \<Rightarrow>
            (case dict_get payload ''ref'' (JStr []) of
               Inl e \<Rightarrow> Inl e
             | Inr r \<Rightarrow>
            (case branch_of r of
               Inl e \<Rightarrow> Inl e
             | Inr branch \<Rightarrow>
            (case py_len commits of
               Inl e \<Rightarrow> Inl e
             | Inr n \<Rightarrow>
                 Inr (''Pushed '' @ str_nat n @ '' commits to '' @ branch @ '' in ''
                      @ fmt L repo_name)))))
          else if event_type = ''release'' then
            (case dict_get payload ''release'' (JObj []) of
               Inl e \<Rightarrow> Inl e
             | Inr release \<Rightarrow>
            (case dict_get release ''tag_name'' (JStr ''unknown'') of
               Inl e \<Rightarrow> Inl e
             | Inr tag \<Rightarrow>
                 Inr (''Released version '' @ fmt L tag @ '' in '' @ fmt L repo_name)))
          else if event_type = ''repository'' then
            (case dict_get payload ''action'' (JStr ''updated'') of
               Inl e \<Rightarrow> Inl e
             | Inr action \<Rightarrow> Inr (''Repository '' @ fmt L action @ '': '' @ fmt L repo_name))
          else if event_type = ''organization'' then
            (case dict_get payload ''action'' (JStr ''updated'') of
               Inl e \<Rightarrow> Inl e
             | Inr action \<Rightarrow> Inr (''Organization '' @ fmt L action))
          else Inr (event_type @ '' event occurred in '' @ fmt L repo_name)))"

section \<open>Configuration: \<open>Config\<close>\<close>

text \<open>An environment variable that is not set reads as \<open>None\<close>.\<close>

record config =
  GITHUB_WEBHOOK_SECRET :: "string option"
  GROQ_API_KEY :: "string option"
  LINKEDIN_ACCESS_TOKEN :: "string option"
  REQUIRE_POST_REVIEW :: bool
  PIPEDREAM_WEBHOOK_URL :: "string option"

text \<open>\<open>not v\<close> for an optional string: \<open>None\<close> and the empty string are false.\<close>

fun unset :: "string option \<Rightarrow> bool" where
  "unset None = True"
| "unset (Some s) = (s = [])"

definition USE_PIPEDREAM :: "'a config_scheme \<Rightarrow> bool" where
  "USE_PIPEDREAM C = (\<not> unset (PIPEDREAM_WEBHOOK_URL C))"

section \<open>Webhook signatures: \<open>GitHubHandler.verify_webhook_signature\<close>\<close>

text \<open>\<open>str.encode()\<close>: UTF-8, one byte below 128 and two bytes from 128 to 255.\<close>

definition utf8_char :: "char \<Rightarrow> 8 word list" where
  "utf8_char c =
     (let n = (of_char c :: nat)
      in if n < 128 then [of_nat n] else [of_nat (192 + n div 64), of_nat (128 + n mod 64)])"

definition encode :: "string \<Rightarrow> 8 word list" where
  "encode s = concat (map utf8_char s)"

text \<open>\<open>hexdigest()\<close>: two lower-case hexadecimal digits for each byte.\<close>

definition hex_digit :: "nat \<Rightarrow> char" where
  "hex_digit d = ''0123456789abcdef'' ! d"

definition hex_byte :: "8 word \<Rightarrow> string" where
  "hex_byte b = [hex_digit (unat b div 16), hex_digit (unat b mod 16)]"

definition hexdigest :: "8 word list \<Rightarrow> string" where
  "hexdigest bs = concat (map hex_byte bs)"

definition is_ascii :: "string \<Rightarrow> bool" where
  "is_ascii s = list_all (\<lambda>c. (of_char c :: nat) < 128) s"

text \<open>
  \<open>hmac.compare_digest(a, b)\<close> with \<open>a\<close> a string: \<open>b\<close> must be a string too, and both
  ASCII; anything else is a \<open>TypeError\<close>. The header value is \<open>None\<close> when the request
  has no such header.
\<close>

definition compare_digest :: "string \<Rightarrow> string option \<Rightarrow> error + bool" where
  "compare_digest a b =
     (case b of
        None \<Rightarrow> Inl TypeError
      | Some b' \<Rightarrow> if is_ascii a \<and> is_ascii b' then Inr (a = b') else Inl TypeError)"

definition expected_signature :: "'a pylib_scheme \<Rightarrow> string \<Rightarrow> 8 word list \<Rightarrow> string" where
  "expected_signature L secret data = ''sha256='' @ hexdigest (hmac_sha256 L (encode secret) data)"

definition verify_webhook_signature ::
  "'a pylib_scheme \<Rightarrow> 'b config_scheme \<Rightarrow> 8 word list \<Rightarrow> string option \<Rightarrow> error + bool" where
  "verify_webhook_signature L C data signature =
     (if unset (GITHUB_WEBHOOK_SECRET C) then Inr False
      else compare_digest (expected_signature L (the (GITHUB_WEBHOOK_SECRET C)) data) signature)"

section \<open>The files of the working directory\<close>

text \<open>
  A file holds a JSON document (recorded as the value \<open>json.load\<close> reads from it, which is
  the value \<open>json.dump\<close> wrote), a text that is not a JSON document, bytes that are not
  UTF-8, or what a write that failed part-way left: \<open>open(name, 'w')\<close> empties the file
  and \<open>json.dump\<close> writes the document piece by piece, so what is left is a proper
  prefix of a JSON list, which is not a JSON document.

  The system decides what opening, writing and renaming do: \<open>read_denied\<close> and
  \<open>rename_denied\<close> say for which names \<open>open(name, 'r')\<close> and \<open>os.rename\<close> raise
  \<open>OSError\<close>, and \<open>on_write\<close> says for each name whether a write succeeds, is refused
  by \<open>open\<close> (\<open>OSError\<close>, the file stays as it was) or fails after \<open>open\<close> with the
  exception given (\<open>OSError\<close> when the disk is full, \<open>UnicodeEncodeError\<close> when a string
  of the document cannot be encoded), which leaves the file truncated.
\<close>

datatype content = JsonDoc json | PlainText string | NotUtf8 | Truncated

datatype write_outcome = Written | OpenRefused | WriteFailed error

record world =
  files :: "string \<Rightarrow> content option"
  read_denied :: "string \<Rightarrow> bool"
  on_write :: "string \<Rightarrow> write_outcome"
  rename_denied :: "string \<Rightarrow> string \<Rightarrow> bool"

definition path_exists :: "'a world_scheme \<Rightarrow> string \<Rightarrow> bool" where
  "path_exists w name = (files w name \<noteq> None)"

text \<open>\<open>with open(name, 'r', encoding='utf-8') as f: json.load(f)\<close>.\<close>

definition json_load :: "'a world_scheme \<Rightarrow> string \<Rightarrow> error + json" where
  "json_load w name =
     (case files w name of
        None \<Rightarrow> Inl FileNotFoundError
      | Some c \<Rightarrow>
          if read_denied w name then Inl OSError
          else (case c of
                  JsonDoc v \<Rightarrow> Inr v
                | PlainText t \<Rightarrow> Inl JSONDecodeError
                | NotUtf8 \<Rightarrow> Inl UnicodeDecodeError
                | Truncated \<Rightarrow> Inl JSONDecodeError))"

text \<open>
  \<open>with open(name, 'w', encoding='utf-8') as f: json.dump(v, f, ...)\<close>. An exception
  comes with the files as the failed write left them.
\<close>

definition json_dump ::
  "'a world_scheme \<Rightarrow> string \<Rightarrow> json \<Rightarrow> error \<times> 'a world_scheme + 'a world_scheme" where
  "json_dump w name v =
     (case on_write w name of
        Written \<Rightarrow> Inr (w\<lparr>files := (files w)(name \<mapsto> JsonDoc v)\<rparr>)
      | OpenRefused \<Rightarrow> Inl (OSError, w)
      | WriteFailed e \<Rightarrow> Inl (e, w\<lparr>files := (files w)(name \<mapsto> Truncated)\<rparr>))"

text \<open>\<open>os.rename(src, dst)\<close>.\<close>

definition os_rename :: "'a world_scheme \<Rightarrow> string \<Rightarrow> string \<Rightarrow> error + 'a world_scheme" where
  "os_rename w src dst =
     (case files w src of
        None \<Rightarrow> Inl FileNotFoundError
      | Some c \<Rightarrow>
          if rename_denied w src dst then Inl OSError
          else Inr (w\<lparr>files := (files w)(src := None, dst \<mapsto> c)\<rparr>))"

section \<open>The event store: \<open>EventManager\<close>\<close>

definition events_file :: "string \<Rightarrow> string" where
  "events_file date = ''events_'' @ date @ ''.json''"

definition posted_events_file :: "string \<Rightarrow> string" where
  "posted_events_file date = ''posted_events_'' @ date @ ''.json''"

definition event_data :: "string \<Rightarrow> string \<Rightarrow> string \<Rightarrow> json \<Rightarrow> json" where
  "event_data event_type timestamp summary payload =
     JObj [(''type'', JStr event_type), (''timestamp'', JStr timestamp),
           (''summary'', JStr summary), (''payload'', payload)]"

text \<open>
  The existing events of \<open>save_event\<close>: the \<open>try\<close> block reads the file and then formats
  \<open>len(events)\<close> for the log; \<open>JSONDecodeError\<close> and \<open>IOError\<close> give the empty list, any
  other exception leaves the function.
\<close>

definition existing_events :: "'a world_scheme \<Rightarrow> string \<Rightarrow> error + json" where
  "existing_events w filename =
     (if path_exists w filename then
        (case json_load w filename of
           Inl e \<Rightarrow> if e = JSONDecodeError \<or> is_OSError e then Inr (JArr []) else Inl e
         | Inr events \<Rightarrow> (case py_len events of Inl e \<Rightarrow> Inl e | Inr n \<Rightarrow> Inr events))
      else Inr (JArr []))"

text \<open>\<open>events.append(x)\<close>: only a list has \<open>append\<close>.\<close>

fun list_append :: "json \<Rightarrow> json \<Rightarrow> error + json" where
  "list_append (JArr xs) x = Inr (JArr (xs @ [x]))"
| "list_append _ x = Inl AttributeError"

text \<open>
  \<open>save_event\<close>. \<open>today\<close> is \<open>datetime.now().strftime('%Y-%m-%d')\<close> and \<open>now\<close> is
  \<open>datetime.now().isoformat()\<close>, both read from the clock by the function. The result
  is the files after a save that returned, or the exception raised together with the
  files as they are then.
\<close>

definition save_event ::
  "'b pylib_scheme \<Rightarrow> string \<Rightarrow> string \<Rightarrow> string \<Rightarrow> json \<Rightarrow> 'a world_scheme
   \<Rightarrow> error \<times> 'a world_scheme + 'a world_scheme" where
  "save_event L today now event_type payload w =
     (case summarize_event L event_type payload of
        Inl e \<Rightarrow> Inl (e, w)
      | Inr summary \<Rightarrow>
     (case existing_events w (events_file today) of
        Inl e \<Rightarrow> Inl (e, w)
      | Inr events \<Rightarrow>
     (case list_append events (event_data event_type now summary payload) of
        Inl e \<Rightarrow> Inl (e, w)
      | Inr events' \<Rightarrow> json_dump w (events_file today) events')))"

text \<open>\<open>load_events(date)\<close>; \<open>today\<close> stands in for a date that is \<open>None\<close>.\<close>

definition load_events :: "string \<Rightarrow> string option \<Rightarrow> 'a world_scheme \<Rightarrow> error + json" where
  "load_events today date w =
     (let filename = events_file (case date of None \<Rightarrow> today | Some d \<Rightarrow> d)
      in if \<not> path_exists w filename then Inr (JArr [])
         else (case json_load w filename of
                 Inl e \<Rightarrow> if e = JSONDecodeError \<or> is_OSError e then Inr (JArr []) else Inl e
               | Inr events \<Rightarrow> Inr events))"

text \<open>\<open>archive_events(date)\<close>: the result and the files afterwards.\<close>

definition archive_events ::
  "string \<Rightarrow> string option \<Rightarrow> 'a world_scheme \<Rightarrow> error + bool \<times> 'a world_scheme" where
  "archive_events today date w =
     (let d = (case date of None \<Rightarrow> today | Some d \<Rightarrow> d);
          source_filename = events_file d;
          archive_filename = posted_events_file d
      in if \<not> path_exists w source_filename then Inr (False, w)
         else (case os_rename w source_filename archive_filename of
                 Inr w' \<Rightarrow> Inr (True, w')
               | Inl e \<Rightarrow> if is_OSError e then Inr (False, w) else Inl e))"

section \<open>Webhook events: \<open>GitHubHandler.process_webhook_event\<close> and the \<open>/webhook\<close> route\<close>

definition supported_events :: "string list" where
  "supported_events = [''push'', ''release'', ''repository'', ''organization'']"

text \<open>The event type is the \<open>X-GitHub-Event\<close> header: \<open>None\<close> when the request has none.\<close>

definition process_webhook_event ::
  "'b pylib_scheme \<Rightarrow> string \<Rightarrow> string \<Rightarrow> string option \<Rightarrow> json \<Rightarrow> 'a world_scheme
   \<Rightarrow> error + bool \<times> 'a world_scheme" where
  "process_webhook_event L today now event_type payload w =
     (case event_type of
        None \<Rightarrow> Inr (False, w)
      | Some t \<Rightarrow>
          if t \<notin> set supported_events then Inr (False, w)
          else (case save_event L today now t payload w of
                  Inr w' \<Rightarrow> Inr (True, w')
                | Inl (e, w') \<Rightarrow> if is_Exception e then Inr (False, w') else Inl e))"

text \<open>
  A request as the route reads it: the raw body, the two headers, and what
  \<open>request.get_json()\<close> gives (the parsed body, or the exception it raises).
\<close>

record request =
  get_data :: "8 word list"
  signature_header :: "string option"
  event_header :: "string option"
  get_json :: "error + json"

text \<open>\<open>github_webhook\<close>: the status code of the response, and the files afterwards.\<close>

definition github_webhook ::
  "'b pylib_scheme \<Rightarrow> 'c config_scheme \<Rightarrow> string \<Rightarrow> string \<Rightarrow> request \<Rightarrow> 'a world_scheme
   \<Rightarrow> nat \<times> 'a world_scheme" where
  "github_webhook L C today now req w =
     (case verify_webhook_signature L C (get_data req) (signature_header req) of
        Inl e \<Rightarrow> (500, w)
      | Inr ok \<Rightarrow>
          if \<not> ok then (403, w)
          else (case get_json req of
                  Inl e \<Rightarrow> (500, w)
                | Inr payload \<Rightarrow>
                    (case process_webhook_event L today now (event_header req) payload w of
                       Inl e \<Rightarrow> (500, w)
                     | Inr (saved, w') \<Rightarrow> (200, w'))))"

section \<open>The content generator: \<open>AIProcessor\<close>\<close>

text \<open>
  \<open>for x in v\<close>: a list gives its elements, a dictionary its keys, a string its
  characters; nothing else can be iterated.
\<close>

fun py_iter :: "json \<Rightarrow> error + json list" where
  "py_iter (JArr xs) = Inr xs"
| "py_iter (JObj kvs) = Inr (map JStr (remdups (map fst kvs)))"
| "py_iter (JStr s) = Inr (map (\<lambda>c. JStr [c]) s)"
| "py_iter _ = Inl TypeError"

text \<open>A list comprehension: the first element whose expression raises ends it.\<close>

fun map_result :: "('a \<Rightarrow> error + 'b) \<Rightarrow> 'a list \<Rightarrow> error + 'b list" where
  "map_result f [] = Inr []"
| "map_result f (x # xs) =
     (case f x of
        Inl e \<Rightarrow> Inl e
      | Inr y \<Rightarrow> (case map_result f xs of Inl e \<Rightarrow> Inl e | Inr ys \<Rightarrow> Inr (y # ys)))"

text \<open>\<open>v.title()\<close>: only a string has the method.\<close>

fun str_title :: "'a pylib_scheme \<Rightarrow> json \<Rightarrow> error + string" where
  "str_title L (JStr s) = Inr (title L s)"
| "str_title L _ = Inl AttributeError"

text \<open>\<open>f"- {event['type'].title()}: {event['summary']}"\<close>.\<close>

definition event_line :: "'a pylib_scheme \<Rightarrow> json \<Rightarrow> error + string" where
  "event_line L event =
     (case subscript event ''type'' of
        Inl e \<Rightarrow> Inl e
      | Inr t \<Rightarrow>
     (case str_title L t of
        Inl e \<Rightarrow> Inl e
      | Inr titled \<Rightarrow>
     (case subscript event ''summary'' of
        Inl e \<Rightarrow> Inl e
      | Inr s \<Rightarrow> Inr (''- '' @ titled @ '': '' @ fmt L s))))"

definition events_text :: "'a pylib_scheme \<Rightarrow> json \<Rightarrow> error + string" where
  "events_text L events =
     (case py_iter events of
        Inl e \<Rightarrow> Inl e
      | Inr es \<Rightarrow>
          (case map_result (event_line L) es of
             Inl e \<Rightarrow> Inl e
           | Inr ls \<Rightarrow> Inr (join ''\<newline>'' ls)))"

definition daily_summary_prompt :: "string \<Rightarrow> string" where
  \<open>daily_summary_prompt text =
     ''Generate a factual summary of GitHub events with commit details.\<newline>\<newline>Input:\<newline>''
     @ text @
     ''\<newline>\<newline>Output format:\<newline>- List specific actions performed with details\<newline>- Include actual commit messages and changes\<newline>- Use format: "X commits: [commit details]. PR #N: [PR title]. vX.X: [release notes]. Issue #N: [issue title]."\<newline>- No hashtags\<newline>- No conversational language\<newline>- Technical details only\<newline>- Under 250 characters\<newline>\<newline>Example: "5 commits: updated AI models, fixed API calls, added error handling. PR #42: user authentication feature. v2.1.0: new performance improvements. Issue #15: resolved memory leak."\<newline>\<newline>Summary:''\<close>

text \<open>
  \<open>str.strip()\<close> removes the white space of both ends: among the code points 0..255
  these are 9 to 13, 28 to 32, 133 and 160.
\<close>

definition is_space :: "char \<Rightarrow> bool" where
  "is_space c =
     (let n = (of_char c :: nat)
      in (9 \<le> n \<and> n \<le> 13) \<or> (28 \<le> n \<and> n \<le> 32) \<or> n = 133 \<or> n = 160)"

definition py_strip :: "string \<Rightarrow> string" where
  "py_strip s = rev (dropWhile is_space (rev (dropWhile is_space s)))"

text \<open>
  The model service. \<open>groq_init\<close> and \<open>groq_init_alt\<close> are the exceptions the two ways of
  constructing the client raise (\<open>None\<close>: the client is built), and \<open>chat_create\<close> is the
  answer to a completion request: the exception it raises, or the \<open>content\<close> of each of
  the response's choices (\<open>None\<close> for a missing content).
\<close>

record chat_request =
  user_content :: string
  model :: string
  max_tokens :: nat
  temperature :: rat

record ai_env =
  groq_init :: "error option"
  groq_init_alt :: "error option"
  chat_create :: "chat_request \<Rightarrow> error + string option list"

text \<open>\<open>_get_client\<close>: \<open>client\<close> says whether \<open>self.client\<close> is already set.\<close>

definition get_client ::
  "'c config_scheme \<Rightarrow> 'e ai_env_scheme \<Rightarrow> bool \<Rightarrow> error + bool" where
  "get_client C E client =
     (if client then Inr True
      else if unset (GROQ_API_KEY C) \<or> GROQ_API_KEY C = Some ''your_groq_api_key_here''
      then Inl ValueError
      else (case groq_init E of
              None \<Rightarrow> Inr True
            | Some e \<Rightarrow> (case groq_init_alt E of None \<Rightarrow> Inr True | Some e2 \<Rightarrow> Inl e)))"

text \<open>\<open>response.choices[0].message.content.strip()\<close>.\<close>

fun first_content :: "string option list \<Rightarrow> error + string" where
  "first_content [] = Inl IndexError"
| "first_content (None # _) = Inl AttributeError"
| "first_content (Some c # _) = Inr (py_strip c)"

text \<open>The \<open>try\<close> block of \<open>generate_daily_summary\<close>.\<close>

definition request_summary ::
  "'c config_scheme \<Rightarrow> 'e ai_env_scheme \<Rightarrow> bool \<Rightarrow> string \<Rightarrow> error + string" where
  "request_summary C E client prompt =
     (case get_client C E client of
        Inl e \<Rightarrow> Inl e
      | Inr c \<Rightarrow>
          (case chat_create E \<lparr>user_content = prompt, model = ''llama-3.1-8b-instant'',
                               max_tokens = 400, temperature = 4 / 5\<rparr> of
             Inl e \<Rightarrow> Inl e
           | Inr choices \<Rightarrow> first_content choices))"

text \<open>\<open>', '.join(set(event_types))\<close>: the elements must be strings.\<close>

fun as_str :: "json \<Rightarrow> error + string" where
  "as_str (JStr s) = Inr s"
| "as_str _ = Inl TypeError"

text \<open>The \<open>except\<close> block of \<open>generate_daily_summary\<close>.\<close>

definition fallback_summary :: "'a pylib_scheme \<Rightarrow> json \<Rightarrow> error + string" where
  "fallback_summary L events =
     (case py_len events of
        Inl e \<Rightarrow> Inl e
      | Inr total_events \<Rightarrow>
     (case py_iter events of
        Inl e \<Rightarrow> Inl e
      | Inr es \<Rightarrow>
     (case map_result (\<lambda>e. subscript e ''type'') es of
        Inl e \<Rightarrow> Inl e
      | Inr event_types \<Rightarrow>
     (case map_result as_str event_types of
        Inl e \<Rightarrow> Inl e
      | Inr ts \<Rightarrow>
          Inr (''Today we had '' @ str_nat total_events @ '' GitHub activities including ''
               @ join '', '' (set_iter L ts) @ ''. Great progress on our projects!'')))))"

text \<open>
  \<open>generate_daily_summary\<close>: the text it returns and whether the client is set
  afterwards.
\<close>

definition generate_daily_summary ::
  "'a pylib_scheme \<Rightarrow> 'c config_scheme \<Rightarrow> 'e ai_env_scheme \<Rightarrow> bool \<Rightarrow> json
   \<Rightarrow> error + string \<times> bool" where
  "generate_daily_summary L C E client events =
     (case events_text L events of
        Inl e \<Rightarrow> Inl e
      | Inr text \<Rightarrow>
          (let client' = (case get_client C E client of Inl e \<Rightarrow> client | Inr c \<Rightarrow> c)
           in case request_summary C E client (daily_summary_prompt text) of
                Inr raw_summary \<Rightarrow> Inr (raw_summary, client')
              | Inl e \<Rightarrow>
                  if is_Exception e then
                    (case fallback_summary L events of
                       Inl e' \<Rightarrow> Inl e'
                     | Inr s \<Rightarrow> Inr (s, client'))
                  else Inl e))"

text \<open>
  An event dictionary as the docstring of \<open>generate_daily_summary\<close> describes it: a
  dictionary with a string under \<open>type\<close> and a value under \<open>summary\<close>. \<open>type_str\<close> is its
  type.
\<close>

fun event_dict :: "json \<Rightarrow> bool" where
  "event_dict (JObj kvs) =
     (case map_of kvs ''type'' of
        Some (JStr t) \<Rightarrow> map_of kvs ''summary'' \<noteq> None
      | _ \<Rightarrow> False)"
| "event_dict _ = False"

fun type_str :: "json \<Rightarrow> string" where
  "type_str (JObj kvs) = (case map_of kvs ''type'' of Some (JStr t) \<Rightarrow> t | _ \<Rightarrow> [])"
| "type_str _ = []"

section \<open>An instance of the library parameters\<close>

text \<open>
  The examples below are evaluated with this instance of the library parameters. No
  general statement depends on it: each holds for every \<open>L\<close>.
\<close>

definition example_lib :: pylib where
  "example_lib =
     \<lparr>str_of = (\<lambda>v. ''<value>''), title = (\<lambda>s. s), set_iter = remdups,
      hmac_sha256 = (\<lambda>key msg. replicate 32 0)\<rparr>"

text \<open>
  A configuration, and working directories: an empty one; one with a bucket for
  2025-01-01 that holds one event; the same with the bucket closed to reading; one where
  no file can be opened for writing; and one where every write fails part-way.
\<close>

definition example_config :: config where
  "example_config =
     \<lparr>GITHUB_WEBHOOK_SECRET = Some ''s3cret'', GROQ_API_KEY = Some ''gsk'',
      LINKEDIN_ACCESS_TOKEN = Some ''token'', REQUIRE_POST_REVIEW = True,
      PIPEDREAM_WEBHOOK_URL = None\<rparr>"

definition empty_world :: world where
  "empty_world =
     \<lparr>files = (\<lambda>name. None), read_denied = (\<lambda>name. False), on_write = (\<lambda>name. Written),
      rename_denied = (\<lambda>src dst. False)\<rparr>"

definition example_event :: json where
  "example_event =
     event_data ''release'' ''2025-01-01T09:00:00'' ''Released version v1 in unknown-repo''
       (JObj [(''release'', JObj [(''tag_name'', JStr ''v1'')])])"

definition example_world :: world where
  "example_world =
     empty_world\<lparr>files := (files empty_world)
       (events_file ''2025-01-01'' \<mapsto> JsonDoc (JArr [example_event]))\<rparr>"

definition unreadable_world :: world where
  "unreadable_world = example_world\<lparr>read_denied := (\<lambda>name. True)\<rparr>"

definition readonly_world :: world where
  "readonly_world = empty_world\<lparr>on_write := (\<lambda>name. OpenRefused)\<rparr>"

definition failing_disk_world :: world where
  "failing_disk_world = example_world\<lparr>on_write := (\<lambda>name. WriteFailed OSError)\<rparr>"

text \<open>A model service that is down, and one that answers every request with one text.\<close>

definition failing_ai :: ai_env where
  "failing_ai =
     \<lparr>groq_init = None, groq_init_alt = None, chat_create = (\<lambda>r. Inl APIError)\<rparr>"

definition answering_ai :: ai_env where
  "answering_ai =
     \<lparr>groq_init = None, groq_init_alt = None,
      chat_create = (\<lambda>r. Inr [Some '' 1 commit: x. '' ])\<rparr>"

(*PROPERTIES*)
section \<open>Properties of \<open>summarize_event\<close>\<close>

lemma replace_ne_absent:
  "old \<noteq> [] \<Longrightarrow> \<not> sublist old s \<Longrightarrow> replace_ne old new s = s"
proof (induction s)
  case Nil
  then show ?case by simp
next
  case (Cons c cs)
  from Cons.prems have np: "\<not> prefix old (c # cs)" and ns: "\<not> sublist old cs"
    by (auto simp: sublist_Cons_right)
  with Cons show ?case by simp
qed

lemma replace_ne_prefix:
  "old \<noteq> [] \<Longrightarrow> replace_ne old new (old @ s) = new @ replace_ne old new s"
  by (cases old) auto

lemma branch_of_heads:
  assumes "\<not> sublist ''refs/heads/'' B"
  shows "branch_of (JStr (''refs/heads/'' @ B)) = Inr B"
proof -
  have "replace_ne ''refs/heads/'' [] (''refs/heads/'' @ B) = [] @ replace_ne ''refs/heads/'' [] B"
    by (rule replace_ne_prefix) simp
  also have "replace_ne ''refs/heads/'' [] B = B"
    using assms by (intro replace_ne_absent) simp_all
  finally show ?thesis by (simp add: py_replace_def)
qed

lemma repo_name_of_dict: "\<exists>n. repo_name_of (JObj r) = Inr n"
  by (simp add: repo_name_of_def)

lemma branch_of_stripped:
  assumes "\<not> sublist ''refs/heads/'' (if prefix ''refs/heads/'' rf then drop 11 rf else rf)"
  shows "branch_of (JStr rf) = Inr (if prefix ''refs/heads/'' rf then drop 11 rf else rf)"
proof (cases "prefix ''refs/heads/'' rf")
  case True
  then obtain B where B: "rf = ''refs/heads/'' @ B"
    by (auto simp: prefix_def)
  then have "drop 11 rf = B"
    by simp
  with assms True B show ?thesis
    using branch_of_heads [of B] by simp
next
  case False
  with assms have "replace_ne ''refs/heads/'' [] rf = rf"
    by (intro replace_ne_absent) simp_all
  with False show ?thesis
    by (simp add: py_replace_def)
qed

lemma summarize_push:
  assumes repo: "dict_get (JObj kvs) ''repository'' (JObj []) = Inr (JObj r)"
    and name: "repo_name_of (JObj r) = Inr n"
    and commits: "dict_get (JObj kvs) ''commits'' (JArr []) = Inr (JArr cs)"
    and ref: "dict_get (JObj kvs) ''ref'' (JStr []) = Inr (JStr rf)"
  shows "summarize_event L ''push'' (JObj kvs)
           = Inr (''Pushed '' @ str_nat (length cs) @ '' commits to ''
                  @ py_replace ''refs/heads/'' [] rf @ '' in '' @ fmt L n)"
  using assms by (simp add: summarize_event_def del: dict_get.simps)

lemma summarize_push_contains:
  assumes repo: "dict_get (JObj kvs) ''repository'' (JObj []) = Inr (JObj r)"
    and commits: "dict_get (JObj kvs) ''commits'' (JArr []) = Inr (JArr cs)"
    and ref: "dict_get (JObj kvs) ''ref'' (JStr []) = Inr (JStr rf)"
  shows "\<exists>s. summarize_event L ''push'' (JObj kvs) = Inr s
             \<and> sublist (str_nat (length cs)) s
             \<and> (\<not> sublist ''refs/heads/'' (if prefix ''refs/heads/'' rf then drop 11 rf else rf)
                  \<longrightarrow> sublist (if prefix ''refs/heads/'' rf then drop 11 rf else rf) s)"
proof -
  obtain n where n: "repo_name_of (JObj r) = Inr n"
    using repo_name_of_dict by blast
  let ?b = "py_replace ''refs/heads/'' [] rf"
  let ?s = "''Pushed '' @ str_nat (length cs) @ '' commits to '' @ ?b @ '' in '' @ fmt L n"
  let ?B = "if prefix ''refs/heads/'' rf then drop 11 rf else rf"
  have s: "summarize_event L ''push'' (JObj kvs) = Inr ?s"
    by (rule summarize_push [OF repo n commits ref])
  have c: "sublist (str_nat (length cs)) ?s"
    by (rule sublist_appendI)
  have b: "sublist ?B ?s" if "\<not> sublist ''refs/heads/'' ?B"
  proof -
    from branch_of_stripped [OF that] have "?b = ?B"
      by simp
    moreover have "sublist ?b ?s"
      using sublist_appendI [of ?b "''Pushed '' @ str_nat (length cs) @ '' commits to ''"
          "'' in '' @ fmt L n"]
      by simp
    ultimately show ?thesis by simp
  qed
  from s c b show ?thesis by blast
qed

lemma summarize_no_throw:
  assumes repo: "dict_get (JObj kvs) ''repository'' (JObj []) = Inr (JObj r)"
    and release: "dict_get (JObj kvs) ''release'' (JObj []) = Inr (JObj rl)"
    and ref: "dict_get (JObj kvs) ''ref'' (JStr []) = Inr (JStr rf)"
    and commits: "dict_get (JObj kvs) ''commits'' (JArr []) = Inr (JArr cs)"
  shows "\<exists>s. summarize_event L t (JObj kvs) = Inr s"
proof -
  obtain n where n: "repo_name_of (JObj r) = Inr n"
    using repo_name_of_dict by blast
  show ?thesis
    using repo release ref commits n
    by (auto simp: summarize_event_def split: option.splits)
qed

text \<open>
  The default of each field, whatever the other fields hold. The repository name is
  missing when the payload has no \<open>repository\<close>, or has one without \<open>full_name\<close> and
  \<open>name\<close>.
\<close>

lemma repo_name_default:
  assumes "map_of kvs ''repository'' = None
           \<or> (\<exists>r. map_of kvs ''repository'' = Some (JObj r)
                  \<and> map_of r ''full_name'' = None \<and> map_of r ''name'' = None)"
  shows "\<exists>r. dict_get (JObj kvs) ''repository'' (JObj []) = Inr (JObj r)
             \<and> repo_name_of (JObj r) = Inr (JStr ''unknown-repo'')"
  using assms by (auto simp: repo_name_of_def)

lemma summarize_default_repo:
  assumes "map_of kvs ''repository'' = None
           \<or> (\<exists>r. map_of kvs ''repository'' = Some (JObj r)
                  \<and> map_of r ''full_name'' = None \<and> map_of r ''name'' = None)"
  shows "(dict_get (JObj kvs) ''commits'' (JArr []) = Inr (JArr cs)
           \<and> dict_get (JObj kvs) ''ref'' (JStr []) = Inr (JStr rf)
         \<longrightarrow> summarize_event L ''push'' (JObj kvs)
               = Inr (''Pushed '' @ str_nat (length cs) @ '' commits to ''
                      @ py_replace ''refs/heads/'' [] rf @ '' in unknown-repo''))
      \<and> (dict_get (JObj kvs) ''release'' (JObj []) = Inr (JObj rl)
           \<and> dict_get (JObj rl) ''tag_name'' (JStr ''unknown'') = Inr tag
         \<longrightarrow> summarize_event L ''release'' (JObj kvs)
               = Inr (''Released version '' @ fmt L tag @ '' in unknown-repo''))
      \<and> (dict_get (JObj kvs) ''action'' (JStr ''updated'') = Inr a
         \<longrightarrow> summarize_event L ''repository'' (JObj kvs)
               = Inr (''Repository '' @ fmt L a @ '': unknown-repo''))
      \<and> (t \<notin> set supported_events
         \<longrightarrow> summarize_event L t (JObj kvs) = Inr (t @ '' event occurred in unknown-repo''))"
proof -
  from repo_name_default [OF assms] obtain r where
    r: "dict_get (JObj kvs) ''repository'' (JObj []) = Inr (JObj r)" and
    n: "repo_name_of (JObj r) = Inr (JStr ''unknown-repo'')"
    by blast
  have 1: "summarize_event L ''push'' (JObj kvs)
               = Inr (''Pushed '' @ str_nat (length cs) @ '' commits to ''
                      @ py_replace ''refs/heads/'' [] rf @ '' in unknown-repo'')"
    if "dict_get (JObj kvs) ''commits'' (JArr []) = Inr (JArr cs)"
      and "dict_get (JObj kvs) ''ref'' (JStr []) = Inr (JStr rf)"
    using summarize_push [OF r n that, of L] by simp
  have 2: "summarize_event L ''release'' (JObj kvs)
               = Inr (''Released version '' @ fmt L tag @ '' in unknown-repo'')"
    if "dict_get (JObj kvs) ''release'' (JObj []) = Inr (JObj rl)"
      and "dict_get (JObj rl) ''tag_name'' (JStr ''unknown'') = Inr tag"
    using r n that by (simp add: summarize_event_def del: dict_get.simps)
  have 3: "summarize_event L ''repository'' (JObj kvs)
               = Inr (''Repository '' @ fmt L a @ '': unknown-repo'')"
    if "dict_get (JObj kvs) ''action'' (JStr ''updated'') = Inr a"
    using r n that by (simp add: summarize_event_def del: dict_get.simps)
  have 4: "summarize_event L t (JObj kvs) = Inr (t @ '' event occurred in unknown-repo'')"
    if "t \<notin> set supported_events"
    using r n that by (simp add: summarize_event_def supported_events_def del: dict_get.simps)
  from 1 2 3 4 show ?thesis by blast
qed

lemma summarize_default_tag:
  assumes repo: "dict_get (JObj kvs) ''repository'' (JObj []) = Inr (JObj r)"
    and name: "repo_name_of (JObj r) = Inr n"
    and tag: "map_of kvs ''release'' = None
              \<or> (\<exists>rl. map_of kvs ''release'' = Some (JObj rl) \<and> map_of rl ''tag_name'' = None)"
  shows "summarize_event L ''release'' (JObj kvs)
           = Inr (''Released version unknown in '' @ fmt L n)"
proof -
  from tag obtain rl where
    "dict_get (JObj kvs) ''release'' (JObj []) = Inr (JObj rl)"
    "dict_get (JObj rl) ''tag_name'' (JStr ''unknown'') = Inr (JStr ''unknown'')"
    by auto
  with repo name show ?thesis
    by (simp add: summarize_event_def del: dict_get.simps)
qed

lemma summarize_default_action:
  assumes repo: "dict_get (JObj kvs) ''repository'' (JObj []) = Inr (JObj r)"
    and name: "repo_name_of (JObj r) = Inr n"
    and action: "map_of kvs ''action'' = None"
  shows "summarize_event L ''repository'' (JObj kvs) = Inr (''Repository updated: '' @ fmt L n)"
    and "summarize_event L ''organization'' (JObj kvs) = Inr ''Organization updated''"
proof -
  from action have a: "dict_get (JObj kvs) ''action'' (JStr ''updated'') = Inr (JStr ''updated'')"
    by simp
  show "summarize_event L ''repository'' (JObj kvs) = Inr (''Repository updated: '' @ fmt L n)"
    using repo name a by (simp add: summarize_event_def del: dict_get.simps)
  show "summarize_event L ''organization'' (JObj kvs) = Inr ''Organization updated''"
    using repo name a by (simp add: summarize_event_def del: dict_get.simps)
qed

lemma summarize_default_ref:
  assumes repo: "dict_get (JObj kvs) ''repository'' (JObj []) = Inr (JObj r)"
    and name: "repo_name_of (JObj r) = Inr n"
    and commits: "dict_get (JObj kvs) ''commits'' (JArr []) = Inr (JArr cs)"
    and ref: "map_of kvs ''ref'' = None"
  shows "summarize_event L ''push'' (JObj kvs)
           = Inr (''Pushed '' @ str_nat (length cs) @ '' commits to  in '' @ fmt L n)"
proof -
  from ref have "dict_get (JObj kvs) ''ref'' (JStr []) = Inr (JStr [])"
    by simp
  from summarize_push [OF repo name commits this, of L] show ?thesis
    by (simp add: py_replace_def)
qed

lemma summarize_default_commits:
  assumes repo: "dict_get (JObj kvs) ''repository'' (JObj []) = Inr (JObj r)"
    and name: "repo_name_of (JObj r) = Inr n"
    and ref: "dict_get (JObj kvs) ''ref'' (JStr []) = Inr (JStr rf)"
    and commits: "map_of kvs ''commits'' = None"
  shows "summarize_event L ''push'' (JObj kvs)
           = Inr (''Pushed 0 commits to '' @ py_replace ''refs/heads/'' [] rf @ '' in '' @ fmt L n)"
proof -
  from commits have "dict_get (JObj kvs) ''commits'' (JArr []) = Inr (JArr [])"
    by simp
  from summarize_push [OF repo name this ref, of L] show ?thesis
    by (simp add: str_nat.simps digit_char_def)
qed

text \<open>
  \<open>replace\<close> removes every occurrence of \<open>refs/heads/\<close>, not only the leading one: a
  branch whose own name contains it is shortened further.
\<close>

lemma summarize_push_nested_prefix:
  "summarize_event L ''push'' (JObj [(''ref'', JStr ''refs/heads/refs/heads/x'')])
     = Inr ''Pushed 0 commits to x in unknown-repo''
   \<and> \<not> sublist ''refs/heads/x'' ''Pushed 0 commits to x in unknown-repo''"
  by (simp add: summarize_event_def repo_name_of_def py_replace_def str_nat.simps digit_char_def
      sublist_Cons_right)

text \<open>
  C5, as stated, fails: for an organization event with no \<open>action\<close> field the summary
  substitutes \<open>updated\<close>, and the word \<open>unknown\<close> appears nowhere in it.
\<close>

theorem summarize_event_default_counterexample:
  "summarize_event example_lib ''organization'' (JObj []) = Inr ''Organization updated''
   \<and> \<not> sublist ''unknown'' ''Organization updated''"
  by (simp add: summarize_event_def repo_name_of_def sublist_Cons_right)

text \<open>
  C5, amended. The payload is a dictionary; a field is \<^emph>\<open>as expected\<close> when it is
  missing or of the type the function expects (\<open>repository\<close> and \<open>release\<close> dictionaries,
  \<open>commits\<close> a list, \<open>ref\<close> a string).

  \<^item> Push: with \<open>repository\<close>, \<open>commits\<close> and \<open>ref\<close> as expected, the summary contains the
    number of commits (0 when \<open>commits\<close> is missing); it contains the ref stripped of a
    leading \<open>refs/heads/\<close> whenever \<open>refs/heads/\<close> does not occur again in what remains.
  \<^item> With \<open>repository\<close>, \<open>release\<close>, \<open>commits\<close> and \<open>ref\<close> as expected, a summary is
    returned for every event type.
  \<^item> A missing repository name is written \<open>unknown-repo\<close> in the summary of a push, a
    release, a repository event and an event of any other type, whatever the other fields
    hold.
  \<^item> With \<open>repository\<close> as expected and \<open>n\<close> the repository name: a missing release tag is
    written \<open>unknown\<close>, a missing action \<open>updated\<close>, a missing ref as the empty string and
    missing commits as 0, each whatever the other fields hold.
\<close>

theorem summarize_event_amended:
  "(dict_get (JObj kvs) ''repository'' (JObj []) = Inr (JObj r)
      \<and> dict_get (JObj kvs) ''commits'' (JArr []) = Inr (JArr cs)
      \<and> dict_get (JObj kvs) ''ref'' (JStr []) = Inr (JStr rf)
    \<longrightarrow> (\<exists>s. summarize_event L ''push'' (JObj kvs) = Inr s
             \<and> sublist (str_nat (length cs)) s
             \<and> (\<not> sublist ''refs/heads/'' (if prefix ''refs/heads/'' rf then drop 11 rf else rf)
                  \<longrightarrow> sublist (if prefix ''refs/heads/'' rf then drop 11 rf else rf) s)))
   \<and> (dict_get (JObj kvs) ''repository'' (JObj []) = Inr (JObj r)
      \<and> dict_get (JObj kvs) ''release'' (JObj []) = Inr (JObj rl)
      \<and> dict_get (JObj kvs) ''ref'' (JStr []) = Inr (JStr rf)
      \<and> dict_get (JObj kvs) ''commits'' (JArr []) = Inr (JArr cs)
    \<longrightarrow> (\<exists>s. summarize_event L t (JObj kvs) = Inr s))
   \<and> (map_of kvs ''repository'' = None
        \<or> (\<exists>r. map_of kvs ''repository'' = Some (JObj r)
               \<and> map_of r ''full_name'' = None \<and> map_of r ''name'' = None)
    \<longrightarrow> (dict_get (JObj kvs) ''commits'' (JArr []) = Inr (JArr cs)
           \<and> dict_get (JObj kvs) ''ref'' (JStr []) = Inr (JStr rf)
         \<longrightarrow> summarize_event L ''push'' (JObj kvs)
               = Inr (''Pushed '' @ str_nat (length cs) @ '' commits to ''
                      @ py_replace ''refs/heads/'' [] rf @ '' in unknown-repo''))
      \<and> (dict_get (JObj kvs) ''release'' (JObj []) = Inr (JObj rl)
           \<and> dict_get (JObj rl) ''tag_name'' (JStr ''unknown'') = Inr tag
         \<longrightarrow> summarize_event L ''release'' (JObj kvs)
               = Inr (''Released version '' @ fmt L tag @ '' in unknown-repo''))
      \<and> (dict_get (JObj kvs) ''action'' (JStr ''updated'') = Inr a
         \<longrightarrow> summarize_event L ''repository'' (JObj kvs)
               = Inr (''Repository '' @ fmt L a @ '': unknown-repo''))
      \<and> (t \<notin> set supported_events
         \<longrightarrow> summarize_event L t (JObj kvs) = Inr (t @ '' event occurred in unknown-repo'')))
   \<and> (dict_get (JObj kvs) ''repository'' (JObj []) = Inr (JObj r)
      \<and> repo_name_of (JObj r) = Inr n
    \<longrightarrow> (map_of kvs ''release'' = None
           \<or> (\<exists>rl. map_of kvs ''release'' = Some (JObj rl) \<and> map_of rl ''tag_name'' = None)
         \<longrightarrow> summarize_event L ''release'' (JObj kvs)
               = Inr (''Released version unknown in '' @ fmt L n))
      \<and> (map_of kvs ''action'' = None
         \<longrightarrow> summarize_event L ''repository'' (JObj kvs)
               = Inr (''Repository updated: '' @ fmt L n)
           \<and> summarize_event L ''organization'' (JObj kvs) = Inr ''Organization updated'')
      \<and> (map_of kvs ''ref'' = None
           \<and> dict_get (JObj kvs) ''commits'' (JArr []) = Inr (JArr cs)
         \<longrightarrow> summarize_event L ''push'' (JObj kvs)
               = Inr (''Pushed '' @ str_nat (length cs) @ '' commits to  in '' @ fmt L n))
      \<and> (map_of kvs ''commits'' = None
           \<and> dict_get (JObj kvs) ''ref'' (JStr []) = Inr (JStr rf)
         \<longrightarrow> summarize_event L ''push'' (JObj kvs)
               = Inr (''Pushed 0 commits to '' @ py_replace ''refs/heads/'' [] rf
                      @ '' in '' @ fmt L n)))"
proof -
  have 1: "(dict_get (JObj kvs) ''repository'' (JObj []) = Inr (JObj r)
      \<and> dict_get (JObj kvs) ''commits'' (JArr []) = Inr (JArr cs)
      \<and> dict_get (JObj kvs) ''ref'' (JStr []) = Inr (JStr rf)
    \<longrightarrow> (\<exists>s. summarize_event L ''push'' (JObj kvs) = Inr s
             \<and> sublist (str_nat (length cs)) s
             \<and> (\<not> sublist ''refs/heads/'' (if prefix ''refs/heads/'' rf then drop 11 rf else rf)
                  \<longrightarrow> sublist (if prefix ''refs/heads/'' rf then drop 11 rf else rf) s)))"
    using summarize_push_contains [of kvs r cs rf L] by blast
  have 2: "(dict_get (JObj kvs) ''repository'' (JObj []) = Inr (JObj r)
      \<and> dict_get (JObj kvs) ''release'' (JObj []) = Inr (JObj rl)
      \<and> dict_get (JObj kvs) ''ref'' (JStr []) = Inr (JStr rf)
      \<and> dict_get (JObj kvs) ''commits'' (JArr []) = Inr (JArr cs)
    \<longrightarrow> (\<exists>s. summarize_event L t (JObj kvs) = Inr s))"
    using summarize_no_throw [of kvs r rl rf cs L t] by blast
  have 3: "(map_of kvs ''repository'' = None
        \<or> (\<exists>r. map_of kvs ''repository'' = Some (JObj r)
               \<and> map_of r ''full_name'' = None \<and> map_of r ''name'' = None)
    \<longrightarrow> (dict_get (JObj kvs) ''commits'' (JArr []) = Inr (JArr cs)
           \<and> dict_get (JObj kvs) ''ref'' (JStr []) = Inr (JStr rf)
         \<longrightarrow> summarize_event L ''push'' (JObj kvs)
               = Inr (''Pushed '' @ str_nat (length cs) @ '' commits to ''
                      @ py_replace ''refs/heads/'' [] rf @ '' in unknown-repo''))
      \<and> (dict_get (JObj kvs) ''release'' (JObj []) = Inr (JObj rl)
           \<and> dict_get (JObj rl) ''tag_name'' (JStr ''unknown'') = Inr tag
         \<longrightarrow> summarize_event L ''release'' (JObj kvs)
               = Inr (''Released version '' @ fmt L tag @ '' in unknown-repo''))
      \<and> (dict_get (JObj kvs) ''action'' (JStr ''updated'') = Inr a
         \<longrightarrow> summarize_event L ''repository'' (JObj kvs)
               = Inr (''Repository '' @ fmt L a @ '': unknown-repo''))
      \<and> (t \<notin> set supported_events
         \<longrightarrow> summarize_event L t (JObj kvs) = Inr (t @ '' event occurred in unknown-repo'')))"
    by (rule impI) (rule summarize_default_repo)
  have 4: "(dict_get (JObj kvs) ''repository'' (JObj []) = Inr (JObj r)
      \<and> repo_name_of (JObj r) = Inr n
    \<longrightarrow> (map_of kvs ''release'' = None
           \<or> (\<exists>rl. map_of kvs ''release'' = Some (JObj rl) \<and> map_of rl ''tag_name'' = None)
         \<longrightarrow> summarize_event L ''release'' (JObj kvs)
               = Inr (''Released version unknown in '' @ fmt L n))
      \<and> (map_of kvs ''action'' = None
         \<longrightarrow> summarize_event L ''repository'' (JObj kvs)
               = Inr (''Repository updated: '' @ fmt L n)
           \<and> summarize_event L ''organization'' (JObj kvs) = Inr ''Organization updated'')
      \<and> (map_of kvs ''ref'' = None
           \<and> dict_get (JObj kvs) ''commits'' (JArr []) = Inr (JArr cs)
         \<longrightarrow> summarize_event L ''push'' (JObj kvs)
               = Inr (''Pushed '' @ str_nat (length cs) @ '' commits to  in '' @ fmt L n))
      \<and> (map_of kvs ''commits'' = None
           \<and> dict_get (JObj kvs) ''ref'' (JStr []) = Inr (JStr rf)
         \<longrightarrow> summarize_event L ''push'' (JObj kvs)
               = Inr (''Pushed 0 commits to '' @ py_replace ''refs/heads/'' [] rf
                      @ '' in '' @ fmt L n)))"
    using summarize_default_tag [of kvs r n L] summarize_default_action [of kvs r n L]
      summarize_default_ref [of kvs r n cs L] summarize_default_commits [of kvs r n rf L]
    by blast
  show ?thesis
    by (rule conjI [OF 1 conjI [OF 2 conjI [OF 3 4]]])
qed

theorem summarize_event_amended_witness:
  "(\<exists>s. summarize_event example_lib ''push''
          (JObj [(''ref'', JStr ''refs/heads/main''),
                 (''commits'', JArr [JObj [(''message'', JStr ''x'')]]),
                 (''repository'', JObj [(''full_name'', JStr ''o/r'')])]) = Inr s
        \<and> sublist ''1'' s \<and> sublist ''main'' s)
   \<and> (\<exists>s. summarize_event example_lib ''release''
          (JObj [(''ref'', JStr ''refs/heads/main''),
                 (''commits'', JArr [JObj [(''message'', JStr ''x'')]]),
                 (''repository'', JObj [(''full_name'', JStr ''o/r'')])]) = Inr s)
   \<and> (\<exists>s. summarize_event example_lib ''push'' (JObj [(''ref'', JStr ''refs/tags/v1'')]) = Inr s
        \<and> sublist ''0'' s \<and> sublist ''refs/tags/v1'' s)
   \<and> summarize_event example_lib ''push'' (JObj [(''ref'', JStr ''refs/tags/v1'')])
       = Inr ''Pushed 0 commits to refs/tags/v1 in unknown-repo''
   \<and> summarize_event example_lib ''release''
         (JObj [(''repository'', JObj [(''id'', JInt 1)]), (''release'', JObj [(''id'', JInt 2)])])
       = Inr ''Released version unknown in unknown-repo''
   \<and> summarize_event example_lib ''repository''
         (JObj [(''repository'', JObj [(''id'', JInt 1)]), (''release'', JObj [(''id'', JInt 2)])])
       = Inr ''Repository updated: unknown-repo''
   \<and> summarize_event example_lib ''organization''
         (JObj [(''repository'', JObj [(''id'', JInt 1)]), (''release'', JObj [(''id'', JInt 2)])])
       = Inr ''Organization updated''
   \<and> summarize_event example_lib ''push''
         (JObj [(''repository'', JObj [(''id'', JInt 1)]), (''release'', JObj [(''id'', JInt 2)])])
       = Inr ''Pushed 0 commits to  in unknown-repo''
   \<and> summarize_event example_lib ''ping''
         (JObj [(''repository'', JObj [(''id'', JInt 1)]), (''release'', JObj [(''id'', JInt 2)])])
       = Inr ''ping event occurred in unknown-repo''"
proof -
  let ?a = "[(''ref'', JStr ''refs/heads/main''),
             (''commits'', JArr [JObj [(''message'', JStr ''x'')]]),
             (''repository'', JObj [(''full_name'', JStr ''o/r'')])]"
  let ?b = "[(''ref'', JStr ''refs/tags/v1'')]"
  let ?c = "[(''repository'', JObj [(''id'', JInt 1)]), (''release'', JObj [(''id'', JInt 2)])]"
  have a: "(\<exists>s. summarize_event example_lib ''push'' (JObj ?a) = Inr s
              \<and> sublist ''1'' s \<and> sublist ''main'' s)
           \<and> (\<exists>s. summarize_event example_lib ''release'' (JObj ?a) = Inr s)"
    using summarize_event_amended
      [where kvs = ?a and r = "[(''full_name'', JStr ''o/r'')]"
         and cs = "[JObj [(''message'', JStr ''x'')]]" and rf = "''refs/heads/main''"
         and rl = "[]" and t = "''release''" and L = example_lib]
    by (simp add: sublist_Cons_right str_nat.simps digit_char_def)
  have b: "(\<exists>s. summarize_event example_lib ''push'' (JObj ?b) = Inr s
              \<and> sublist ''0'' s \<and> sublist ''refs/tags/v1'' s)
           \<and> summarize_event example_lib ''push'' (JObj ?b)
               = Inr ''Pushed 0 commits to refs/tags/v1 in unknown-repo''"
    using summarize_event_amended
      [where kvs = ?b and r = "[]" and cs = "[]" and rf = "''refs/tags/v1''"
         and n = "JStr ''unknown-repo''" and L = example_lib]
    by (simp add: sublist_Cons_right str_nat.simps digit_char_def repo_name_of_def
        py_replace_def)
  have c: "summarize_event example_lib ''release'' (JObj ?c)
               = Inr ''Released version unknown in unknown-repo''
           \<and> summarize_event example_lib ''repository'' (JObj ?c)
               = Inr ''Repository updated: unknown-repo''
           \<and> summarize_event example_lib ''organization'' (JObj ?c) = Inr ''Organization updated''
           \<and> summarize_event example_lib ''push'' (JObj ?c)
               = Inr ''Pushed 0 commits to  in unknown-repo''
           \<and> summarize_event example_lib ''ping'' (JObj ?c)
               = Inr ''ping event occurred in unknown-repo''"
    using summarize_event_amended
      [where kvs = ?c and r = "[(''id'', JInt 1)]" and cs = "[]" and rf = "[]"
         and rl = "[(''id'', JInt 2)]" and tag = "JStr ''unknown''"
         and a = "JStr ''updated''" and t = "''ping''"
         and n = "JStr ''unknown-repo''" and L = example_lib]
    by (simp add: str_nat.simps digit_char_def repo_name_of_def py_replace_def
        supported_events_def)
  from a b c show ?thesis by blast
qed

section \<open>Properties of \<open>verify_webhook_signature\<close>\<close>

lemma hex_digit_ascii: "d < 16 \<Longrightarrow> (of_char (hex_digit d) :: nat) < 128"
proof -
  assume d: "d < 16"
  have "list_all (\<lambda>c. (of_char c :: nat) < 128) ''0123456789abcdef''"
    by simp
  then show ?thesis
    using d by (simp add: hex_digit_def list_all_length)
qed

lemma hex_byte_ascii: "is_ascii (hex_byte b)"
proof -
  have "unat b < 256"
    using unsigned_less [of b] by simp
  then have "unat b div 16 < 16"
    by simp
  then show ?thesis
    by (simp add: hex_byte_def is_ascii_def hex_digit_ascii)
qed

lemma is_ascii_append: "is_ascii (xs @ ys) = (is_ascii xs \<and> is_ascii ys)"
  by (simp add: is_ascii_def)

lemma hexdigest_ascii: "is_ascii (hexdigest bs)"
proof (induction bs)
  case Nil
  show ?case by (simp add: hexdigest_def is_ascii_def)
next
  case (Cons b bs)
  then show ?case
    using hex_byte_ascii [of b] by (simp add: hexdigest_def is_ascii_append)
qed

lemma expected_signature_ascii: "is_ascii (expected_signature L secret data)"
proof -
  have "is_ascii ''sha256=''"
    by (simp add: is_ascii_def)
  then show ?thesis
    unfolding expected_signature_def using hexdigest_ascii by (simp only: is_ascii_append)
qed

text \<open>
  With a secret configured, the signature that \<open>hmac\<close> computes for the body is accepted,
  every other ASCII string is rejected, and without a secret everything is rejected.
\<close>

lemma verify_valid:
  "\<not> unset (GITHUB_WEBHOOK_SECRET C) \<Longrightarrow>
   verify_webhook_signature L C data
     (Some (expected_signature L (the (GITHUB_WEBHOOK_SECRET C)) data)) = Inr True"
  by (simp add: verify_webhook_signature_def compare_digest_def expected_signature_ascii)

lemma verify_other_ascii:
  "\<not> unset (GITHUB_WEBHOOK_SECRET C) \<Longrightarrow> is_ascii sig \<Longrightarrow>
   sig \<noteq> expected_signature L (the (GITHUB_WEBHOOK_SECRET C)) data \<Longrightarrow>
   verify_webhook_signature L C data (Some sig) = Inr False"
  by (auto simp: verify_webhook_signature_def compare_digest_def expected_signature_ascii)

lemma verify_unconfigured:
  "unset (GITHUB_WEBHOOK_SECRET C) \<Longrightarrow> verify_webhook_signature L C data sig = Inr False"
  by (simp add: verify_webhook_signature_def)

text \<open>
  A request without the signature header, or with a header that is not ASCII, makes
  \<open>compare_digest\<close> raise: the function does not return.
\<close>

lemma verify_absent_header:
  "\<not> unset (GITHUB_WEBHOOK_SECRET C) \<Longrightarrow> verify_webhook_signature L C data None = Inl TypeError"
  by (simp add: verify_webhook_signature_def compare_digest_def)

lemma verify_non_ascii:
  "\<not> unset (GITHUB_WEBHOOK_SECRET C) \<Longrightarrow> \<not> is_ascii sig \<Longrightarrow>
   verify_webhook_signature L C data (Some sig) = Inl TypeError"
  by (simp add: verify_webhook_signature_def compare_digest_def)

text \<open>
  C1 says that \<open>verify_webhook_signature\<close> returns false when the signature header is
  absent. With a secret configured it raises \<open>TypeError\<close> instead, and the \<open>/webhook\<close>
  route answers 500 rather than 403.
\<close>

theorem verify_webhook_signature_absent_header:
  "verify_webhook_signature example_lib example_config [] None = Inl TypeError
   \<and> fst (github_webhook example_lib example_config ''2025-01-01'' ''2025-01-01T00:00:00''
        \<lparr>get_data = [], signature_header = None, event_header = Some ''push'',
         get_json = Inr (JObj [])\<rparr> empty_world) = 500"
  by (simp add: verify_webhook_signature_def compare_digest_def example_config_def
      github_webhook_def)

section \<open>Properties of the event store\<close>

lemma file_names_differ: "events_file d \<noteq> posted_events_file d'"
  by (simp add: events_file_def posted_events_file_def)

lemma existing_events_cases:
  assumes "existing_events w name = Inr events" and "list_append events x = Inr events'"
  shows "\<exists>old. events = JArr old \<and> events' = JArr (old @ [x])"
  using assms by (cases events) auto

lemma existing_events_load:
  assumes "existing_events w (events_file d) = Inr (JArr old)"
    and "\<not> read_denied w (events_file d)"
  shows "load_events today (Some d) w = Inr (JArr old)"
  using assms
  by (auto simp: existing_events_def load_events_def json_load_def path_exists_def
      split: if_splits option.splits content.splits sum.splits)

lemma load_after_dump:
  assumes "json_dump w (events_file d) v = Inr w'" and "\<not> read_denied w (events_file d)"
  shows "load_events today (Some d) w' = Inr v"
  using assms
  by (auto simp: json_dump_def load_events_def json_load_def path_exists_def
      split: write_outcome.splits)

text \<open>
  C2, as stated, fails for a bucket that exists and can be written but not read.
  \<open>save_event\<close> takes the unreadable bucket for an empty one and returns normally,
  having replaced the stored event by the new one alone; \<open>load_events\<close> meets the same
  refusal afterwards and returns the empty list: the stored event is not in it, and
  neither is the new one.
\<close>

theorem save_then_load_unreadable_counterexample:
  "files unreadable_world (events_file ''2025-01-01'') = Some (JsonDoc (JArr [example_event]))
   \<and> save_event example_lib ''2025-01-01'' ''2025-01-01T10:00:00'' ''push'' (JObj [])
         unreadable_world
       = Inr (unreadable_world\<lparr>files := (files unreadable_world)
                (events_file ''2025-01-01'' \<mapsto>
                   JsonDoc (JArr [event_data ''push'' ''2025-01-01T10:00:00''
                                    ''Pushed 0 commits to  in unknown-repo'' (JObj [])]))\<rparr>)
   \<and> load_events ''2025-01-01'' None
         (unreadable_world\<lparr>files := (files unreadable_world)
                (events_file ''2025-01-01'' \<mapsto>
                   JsonDoc (JArr [event_data ''push'' ''2025-01-01T10:00:00''
                                    ''Pushed 0 commits to  in unknown-repo'' (JObj [])]))\<rparr>)
       = Inr (JArr [])"
  by (simp add: save_event_def summarize_event_def repo_name_of_def py_replace_def
      str_nat.simps digit_char_def existing_events_def load_events_def path_exists_def
      json_load_def json_dump_def unreadable_world_def example_world_def empty_world_def)

text \<open>
  C2, amended. When \<open>save_event\<close> returns and the day's bucket can be opened for
  reading, \<open>load_events\<close> for the same day gives the events it gave before, in their
  order, followed by exactly one new event, whose \<open>summary\<close> field is
  \<open>summarize_event(type, payload)\<close>.
\<close>

theorem save_then_load:
  assumes save: "save_event L today now event_type payload w = Inr w'"
    and readable: "\<not> read_denied w (events_file today)"
  shows "\<exists>old summary.
           summarize_event L event_type payload = Inr summary
         \<and> load_events today (Some today) w = Inr (JArr old)
         \<and> load_events today None w = Inr (JArr old)
         \<and> load_events today (Some today) w'
             = Inr (JArr (old @ [event_data event_type now summary payload]))
         \<and> load_events today None w'
             = Inr (JArr (old @ [event_data event_type now summary payload]))
         \<and> subscript (event_data event_type now summary payload) ''summary'' = Inr (JStr summary)"
proof -
  from save obtain summary events events' where
    s: "summarize_event L event_type payload = Inr summary" and
    e: "existing_events w (events_file today) = Inr events" and
    a: "list_append events (event_data event_type now summary payload) = Inr events'" and
    d: "json_dump w (events_file today) events' = Inr w'"
    by (auto simp: save_event_def split: sum.splits)
  from existing_events_cases [OF e a] obtain old where
    old: "events = JArr old" "events' = JArr (old @ [event_data event_type now summary payload])"
    by blast
  have before: "load_events today (Some today) w = Inr (JArr old)"
    using existing_events_load e old readable by blast
  have after: "load_events today (Some today) w'
                 = Inr (JArr (old @ [event_data event_type now summary payload]))"
    using load_after_dump [OF d readable] old by simp
  have none: "load_events today None w0 = load_events today (Some today) w0" for w0 :: "'a world_scheme"
    by (simp add: load_events_def)
  have "subscript (event_data event_type now summary payload) ''summary'' = Inr (JStr summary)"
    by (simp add: event_data_def)
  with s before after none show ?thesis by metis
qed

theorem save_then_load_witness:
  "load_events ''2025-01-01'' None example_world = Inr (JArr [example_event])
   \<and> (\<exists>w'. save_event example_lib ''2025-01-01'' ''2025-01-01T10:00:00'' ''push''
             (JObj [(''ref'', JStr ''refs/heads/main'')]) example_world = Inr w'
         \<and> load_events ''2025-01-01'' None w'
             = Inr (JArr [example_event,
                 event_data ''push'' ''2025-01-01T10:00:00''
                   ''Pushed 0 commits to main in unknown-repo''
                   (JObj [(''ref'', JStr ''refs/heads/main'')])]))"
proof -
  let ?p = "JObj [(''ref'', JStr ''refs/heads/main'')]"
  have s: "summarize_event example_lib ''push'' ?p
             = Inr ''Pushed 0 commits to main in unknown-repo''"
    by (simp add: summarize_event_def repo_name_of_def py_replace_def str_nat.simps
        digit_char_def)
  have e: "existing_events example_world (events_file ''2025-01-01'') = Inr (JArr [example_event])"
    by (simp add: existing_events_def example_world_def empty_world_def path_exists_def
        json_load_def)
  have wd: "on_write example_world (events_file ''2025-01-01'') = Written"
    by (simp add: example_world_def empty_world_def)
  obtain w' where w': "save_event example_lib ''2025-01-01'' ''2025-01-01T10:00:00'' ''push''
             ?p example_world = Inr w'"
    by (simp add: save_event_def s e json_dump_def wd)
  have r: "\<not> read_denied example_world (events_file ''2025-01-01'')"
    by (simp add: example_world_def empty_world_def)
  from save_then_load [OF w' r] e s w' show ?thesis
    by (auto simp: load_events_def example_world_def empty_world_def path_exists_def
        json_load_def)
qed

lemma archive_events_total: "\<exists>b w'. archive_events today date w = Inr (b, w')"
  by (auto simp: archive_events_def os_rename_def Let_def split: option.splits)

text \<open>
  C4. \<open>archive_events\<close> never raises. It returns true exactly when the day's bucket
  exists and the rename is not refused; then the bucket is gone under its own name, its
  content is under the archived name, and a second call returns false and changes
  nothing. When it returns false the files are unchanged.
\<close>

theorem archive_events_result:
  "(\<exists>b w'. archive_events today date w = Inr (b, w'))
   \<and> (archive_events today date w = Inr (b, w') \<longrightarrow>
        (let d = (case date of None \<Rightarrow> today | Some d \<Rightarrow> d)
         in (b \<longleftrightarrow> path_exists w (events_file d)
                     \<and> \<not> rename_denied w (events_file d) (posted_events_file d))
          \<and> (b \<longrightarrow> \<not> path_exists w' (events_file d)
                  \<and> files w' (posted_events_file d) = files w (events_file d)
                  \<and> archive_events today date w' = Inr (False, w'))
          \<and> (\<not> b \<longrightarrow> w' = w)))"
proof (intro conjI impI)
  show "\<exists>b w'. archive_events today date w = Inr (b, w')"
    by (rule archive_events_total)
next
  assume a: "archive_events today date w = Inr (b, w')"
  define d where "d = (case date of None \<Rightarrow> today | Some d \<Rightarrow> d)"
  have ne: "events_file d \<noteq> posted_events_file d"
    by (rule file_names_differ)
  have 1: "b \<longleftrightarrow> path_exists w (events_file d)
                     \<and> \<not> rename_denied w (events_file d) (posted_events_file d)"
    using a unfolding d_def
    by (auto simp: archive_events_def os_rename_def path_exists_def Let_def
        split: option.splits if_splits)
  have 2: "\<not> path_exists w' (events_file d)
           \<and> files w' (posted_events_file d) = files w (events_file d)
           \<and> archive_events today date w' = Inr (False, w')" if b
    using a that ne unfolding d_def
    by (auto simp: archive_events_def os_rename_def path_exists_def Let_def
        split: option.splits if_splits)
  have 3: "w' = w" if "\<not> b"
    using a that unfolding d_def
    by (auto simp: archive_events_def os_rename_def path_exists_def Let_def
        split: option.splits if_splits)
  from 1 2 3 show "let d = (case date of None \<Rightarrow> today | Some d \<Rightarrow> d)
         in (b \<longleftrightarrow> path_exists w (events_file d)
                     \<and> \<not> rename_denied w (events_file d) (posted_events_file d))
          \<and> (b \<longrightarrow> \<not> path_exists w' (events_file d)
                  \<and> files w' (posted_events_file d) = files w (events_file d)
                  \<and> archive_events today date w' = Inr (False, w'))
          \<and> (\<not> b \<longrightarrow> w' = w)"
    unfolding d_def [symmetric] Let_def by blast
qed

theorem archive_events_result_witness:
  "\<exists>w'. archive_events ''2025-01-01'' None example_world = Inr (True, w')
       \<and> \<not> path_exists w' (events_file ''2025-01-01'')
       \<and> files w' (posted_events_file ''2025-01-01'') = Some (JsonDoc (JArr [example_event]))
       \<and> archive_events ''2025-01-01'' None w' = Inr (False, w')"
proof -
  obtain b w' where a: "archive_events ''2025-01-01'' None example_world = Inr (b, w')"
    using archive_events_total by blast
  have p: "path_exists example_world (events_file ''2025-01-01'')"
    by (simp add: example_world_def path_exists_def)
  have r: "\<not> rename_denied example_world (events_file ''2025-01-01'')
             (posted_events_file ''2025-01-01'')"
    by (simp add: example_world_def empty_world_def)
  have f: "files example_world (events_file ''2025-01-01'') = Some (JsonDoc (JArr [example_event]))"
    by (simp add: example_world_def)
  from archive_events_result [of "''2025-01-01''" None example_world b w'] a p r f
  show ?thesis by (auto simp: Let_def)
qed

section \<open>Properties of \<open>process_webhook_event\<close>\<close>

text \<open>
  C9. \<open>process_webhook_event\<close> always returns a boolean: false, with the files
  untouched, for an event type that is not supported (or a missing event header), and
  false when \<open>save_event\<close> raises, with the files as the failed save left them. The route
  then answers 200 for a request with a valid signature whose event could not be written.
  A save that raises leaves the files as they were, or, when the write failed after the
  bucket was opened, leaves the bucket truncated and every other file as it was.
\<close>

theorem process_webhook_event_never_raises:
  "(\<exists>b w'. process_webhook_event L today now event_type payload w = Inr (b, w'))
   \<and> ((\<forall>t. event_type = Some t \<longrightarrow> t \<notin> set supported_events)
        \<longrightarrow> process_webhook_event L today now event_type payload w = Inr (False, w))
   \<and> (event_type = Some t \<and> save_event L today now t payload w = Inl (e, w1)
        \<longrightarrow> process_webhook_event L today now event_type payload w
              = Inr (False, if t \<in> set supported_events then w1 else w))
   \<and> (verify_webhook_signature L C (get_data req) (signature_header req) = Inr True
        \<and> get_json req = Inr payload \<and> event_header req = Some t
        \<and> save_event L today now t payload w = Inl (e, w1)
        \<longrightarrow> github_webhook L C today now req w
              = (200, if t \<in> set supported_events then w1 else w))
   \<and> (save_event L today now t payload w = Inl (e, w1)
        \<longrightarrow> w1 = w
            \<or> on_write w (events_file today) = WriteFailed e
              \<and> w1 = w\<lparr>files := (files w)(events_file today \<mapsto> Truncated)\<rparr>)"
proof -
  have 1: "\<exists>b w'. process_webhook_event L today now event_type payload w = Inr (b, w')"
    by (auto simp: process_webhook_event_def split: option.splits sum.splits)
  have 2: "process_webhook_event L today now event_type payload w = Inr (False, w)"
    if "\<forall>t. event_type = Some t \<longrightarrow> t \<notin> set supported_events"
    using that by (auto simp: process_webhook_event_def split: option.splits)
  have 3: "process_webhook_event L today now (Some t) payload w
             = Inr (False, if t \<in> set supported_events then w1 else w)"
    if "save_event L today now t payload w = Inl (e, w1)"
    using that by (simp add: process_webhook_event_def)
  have 4: "github_webhook L C today now req w
             = (200, if t \<in> set supported_events then w1 else w)"
    if "verify_webhook_signature L C (get_data req) (signature_header req) = Inr True"
      and "get_json req = Inr payload" and "event_header req = Some t"
      and "save_event L today now t payload w = Inl (e, w1)"
    using that 3 [OF that(4)] by (simp add: github_webhook_def)
  have 5: "w1 = w
            \<or> on_write w (events_file today) = WriteFailed e
              \<and> w1 = w\<lparr>files := (files w)(events_file today \<mapsto> Truncated)\<rparr>"
    if "save_event L today now t payload w = Inl (e, w1)"
    using that
    by (auto simp: save_event_def json_dump_def split: sum.splits write_outcome.splits)
  from 1 2 3 4 5 show ?thesis by blast
qed

theorem process_webhook_event_never_raises_witness:
  "process_webhook_event example_lib ''2025-01-01'' ''2025-01-01T10:00:00'' (Some ''ping'')
       (JObj []) example_world = Inr (False, example_world)
   \<and> save_event example_lib ''2025-01-01'' ''2025-01-01T10:00:00'' ''push'' (JObj [])
       readonly_world = Inl (OSError, readonly_world)
   \<and> process_webhook_event example_lib ''2025-01-01'' ''2025-01-01T10:00:00'' (Some ''push'')
       (JObj []) readonly_world = Inr (False, readonly_world)
   \<and> github_webhook example_lib example_config ''2025-01-01'' ''2025-01-01T10:00:00''
       \<lparr>get_data = [], signature_header = Some (expected_signature example_lib ''s3cret'' []),
        event_header = Some ''push'', get_json = Inr (JObj [])\<rparr> readonly_world
       = (200, readonly_world)
   \<and> save_event example_lib ''2025-01-01'' ''2025-01-01T10:00:00'' ''push'' (JObj [])
       failing_disk_world
       = Inl (OSError, failing_disk_world\<lparr>files := (files failing_disk_world)
                         (events_file ''2025-01-01'' \<mapsto> Truncated)\<rparr>)
   \<and> process_webhook_event example_lib ''2025-01-01'' ''2025-01-01T10:00:00'' (Some ''push'')
       (JObj []) failing_disk_world
       = Inr (False, failing_disk_world\<lparr>files := (files failing_disk_world)
                         (events_file ''2025-01-01'' \<mapsto> Truncated)\<rparr>)"
proof -
  let ?req = "\<lparr>get_data = [], signature_header = Some (expected_signature example_lib ''s3cret'' []),
        event_header = Some ''push'', get_json = Inr (JObj [])\<rparr>"
  let ?t = "failing_disk_world\<lparr>files := (files failing_disk_world)
                         (events_file ''2025-01-01'' \<mapsto> Truncated)\<rparr>"
  have s: "save_event example_lib ''2025-01-01'' ''2025-01-01T10:00:00'' ''push'' (JObj [])
       readonly_world = Inl (OSError, readonly_world)"
    by (simp add: save_event_def summarize_event_def repo_name_of_def py_replace_def
        existing_events_def path_exists_def json_dump_def readonly_world_def empty_world_def)
  have f: "save_event example_lib ''2025-01-01'' ''2025-01-01T10:00:00'' ''push'' (JObj [])
       failing_disk_world = Inl (OSError, ?t)"
    by (simp add: save_event_def summarize_event_def repo_name_of_def py_replace_def
        existing_events_def path_exists_def json_load_def json_dump_def
        failing_disk_world_def example_world_def empty_world_def)
  have v: "verify_webhook_signature example_lib example_config (get_data ?req)
             (signature_header ?req) = Inr True"
    using verify_valid [of example_config example_lib "[]"] by (simp add: example_config_def)
  have u: "\<forall>t. Some ''ping'' = Some t \<longrightarrow> t \<notin> set supported_events"
    by (simp add: supported_events_def)
  have p: "''push'' \<in> set supported_events"
    by (simp add: supported_events_def)
  from process_webhook_event_never_raises
         [where L = example_lib and today = "''2025-01-01''" and now = "''2025-01-01T10:00:00''"
            and event_type = "Some ''ping''" and payload = "JObj []" and w = example_world] u
  have 1: "process_webhook_event example_lib ''2025-01-01'' ''2025-01-01T10:00:00''
       (Some ''ping'') (JObj []) example_world = Inr (False, example_world)"
    by blast
  from process_webhook_event_never_raises
         [where L = example_lib and today = "''2025-01-01''" and now = "''2025-01-01T10:00:00''"
            and event_type = "Some ''push''" and payload = "JObj []" and w = readonly_world
            and t = "''push''" and e = OSError and ?w1.0 = readonly_world
            and C = example_config and req = ?req] s v p
  have 2: "process_webhook_event example_lib ''2025-01-01'' ''2025-01-01T10:00:00''
       (Some ''push'') (JObj []) readonly_world = Inr (False, readonly_world)"
    and 3: "github_webhook example_lib example_config ''2025-01-01'' ''2025-01-01T10:00:00''
       ?req readonly_world = (200, readonly_world)"
    by simp_all
  from process_webhook_event_never_raises
         [where L = example_lib and today = "''2025-01-01''" and now = "''2025-01-01T10:00:00''"
            and event_type = "Some ''push''" and payload = "JObj []" and w = failing_disk_world
            and t = "''push''" and e = OSError and ?w1.0 = ?t
            and C = example_config and req = ?req] f p
  have 4: "process_webhook_event example_lib ''2025-01-01'' ''2025-01-01T10:00:00''
       (Some ''push'') (JObj []) failing_disk_world = Inr (False, ?t)"
    by simp
  from 1 2 3 4 s f show ?thesis by blast
qed

section \<open>Properties of \<open>generate_daily_summary\<close>\<close>

lemma map_result_Inr_iff:
  "map_result f xs = Inr ys \<longleftrightarrow> length ys = length xs \<and> (\<forall>i < length xs. f (xs ! i) = Inr (ys ! i))"
proof (induction xs arbitrary: ys)
  case Nil
  show ?case by auto
next
  case (Cons x xs)
  show ?case
  proof (cases "f x")
    case (Inl e)
    then show ?thesis by (auto simp: Cons.IH)
  next
    case (Inr y)
    show ?thesis
    proof (cases ys)
      case Nil
      then show ?thesis using Inr by (auto split: sum.splits)
    next
      case (Cons z zs)
      then show ?thesis
        using Inr Cons.IH [of zs]
        by (auto simp: nth_Cons less_Suc_eq_0_disj split: sum.splits nat.splits)
    qed
  qed
qed

lemma map_result_all_Inr:
  assumes "\<And>x. x \<in> set xs \<Longrightarrow> f x = Inr (g x)"
  shows "map_result f xs = Inr (map g xs)"
  using assms by (induction xs) auto

lemma map_result_fails:
  assumes "x \<in> set xs" and "f x = Inl e"
  shows "\<exists>e'. map_result f xs = Inl e'"
  using assms by (induction xs) (auto split: sum.splits)

lemma map_result_first_failure:
  assumes "\<And>y. y \<in> set good \<Longrightarrow> \<exists>v. f y = Inr v" and "f x = Inl e"
  shows "map_result f (good @ x # rest) = Inl e"
  using assms
proof (induction good)
  case Nil
  then show ?case by simp
next
  case (Cons a good)
  from Cons.prems(1) [of a] obtain v where "f a = Inr v"
    by auto
  moreover have "map_result f (good @ x # rest) = Inl e"
    using Cons by simp
  ultimately show ?case by simp
qed

lemma event_line_event_dict: "event_dict e \<Longrightarrow> \<exists>l. event_line L e = Inr l"
  by (cases e) (auto simp: event_line_def split: option.splits json.splits)

lemma subscript_type_event_dict: "event_dict e \<Longrightarrow> subscript e ''type'' = Inr (JStr (type_str e))"
  by (cases e) (auto split: option.splits json.splits)

lemma event_line_Inr_type:
  "event_line L e = Inr l \<Longrightarrow> \<exists>t. subscript e ''type'' = Inr (JStr t)"
  by (cases "subscript e ''type''")
     (auto simp: event_line_def split: sum.splits elim: str_title.elims)

lemma event_line_lacks_key:
  assumes "map_of kvs ''type'' = None \<or> map_of kvs ''summary'' = None"
  shows "\<exists>e. event_line L (JObj kvs) = Inl e"
  using assms by (auto simp: event_line_def split: sum.splits option.splits)

lemma event_line_KeyError:
  assumes "map_of kvs ''type'' = None
           \<or> (\<exists>t. map_of kvs ''type'' = Some (JStr t)) \<and> map_of kvs ''summary'' = None"
  shows "event_line L (JObj kvs) = Inl KeyError"
  using assms by (auto simp: event_line_def)

lemma events_text_event_dicts:
  "list_all event_dict es \<Longrightarrow> \<exists>text. events_text L (JArr es) = Inr text"
proof -
  assume a: "list_all event_dict es"
  have "\<exists>ls. map_result (event_line L) es = Inr ls"
    using a
  proof (induction es)
    case Nil
    show ?case by simp
  next
    case (Cons e es)
    then show ?case using event_line_event_dict [of e L] by (auto split: sum.splits)
  qed
  then show ?thesis by (auto simp: events_text_def)
qed

lemma fallback_summary_event_dicts:
  assumes "list_all event_dict es"
  shows "fallback_summary L (JArr es)
           = Inr (''Today we had '' @ str_nat (length es) @ '' GitHub activities including ''
                  @ join '', '' (set_iter L (map type_str es))
                  @ ''. Great progress on our projects!'')"
proof -
  have 1: "map_result (\<lambda>e. subscript e ''type'') es = Inr (map (\<lambda>e. JStr (type_str e)) es)"
    using assms by (intro map_result_all_Inr) (simp add: list_all_iff subscript_type_event_dict)
  have 2: "map_result as_str (map (\<lambda>e. JStr (type_str e)) es) = Inr (map type_str es)"
    by (induction es) auto
  show ?thesis by (simp add: fallback_summary_def 1 2)
qed

lemma fallback_after_events_text:
  assumes "events_text L events = Inr text"
  shows "\<exists>s. fallback_summary L events = Inr s"
proof -
  from assms obtain es ls where
    es: "py_iter events = Inr es" and ls: "map_result (event_line L) es = Inr ls"
    by (auto simp: events_text_def split: sum.splits)
  define tt where "tt x = (case subscript x ''type'' of Inr (JStr t) \<Rightarrow> t | _ \<Rightarrow> [])" for x
  have "subscript x ''type'' = Inr (JStr (tt x))" if "x \<in> set es" for x
  proof -
    from that obtain i where "i < length es" "x = es ! i"
      by (auto simp: in_set_conv_nth)
    with ls have "event_line L x = Inr (ls ! i)"
      by (simp add: map_result_Inr_iff)
    from event_line_Inr_type [OF this] show ?thesis
      by (auto simp: tt_def)
  qed
  then have 1: "map_result (\<lambda>e. subscript e ''type'') es = Inr (map (\<lambda>x. JStr (tt x)) es)"
    by (intro map_result_all_Inr) simp
  have 2: "map_result as_str (map (\<lambda>x. JStr (tt x)) xs) = Inr (map tt xs)" for xs
    by (induction xs) auto
  from es obtain n where "py_len events = Inr n"
    by (cases events) auto
  then show ?thesis
    by (simp add: fallback_summary_def es 1 2)
qed

lemma daily_summary_returns:
  assumes "events_text L events = Inr text"
  shows "\<exists>s c. generate_daily_summary L C E client events = Inr (s, c)"
proof -
  from fallback_after_events_text [OF assms] obtain s where "fallback_summary L events = Inr s"
    by blast
  then show ?thesis
    by (auto simp: generate_daily_summary_def assms Let_def split: sum.splits)
qed

text \<open>
  C6, as stated, fails. The lines of the prompt are built before the \<open>try\<close> block, so
  for the list that holds one empty dictionary the \<open>KeyError\<close> of \<open>event['type']\<close> leaves
  the function, whatever the model service does: no fallback sentence is returned.
\<close>

theorem daily_summary_fallback_counterexample:
  "generate_daily_summary example_lib example_config failing_ai False (JArr [JObj []])
     = Inl KeyError"
  by (simp add: generate_daily_summary_def events_text_def event_line_def)

text \<open>
  C6, amended. For every list of event dictionaries, each with a string under \<open>type\<close>
  and a value under \<open>summary\<close>: when the request to the model fails (the client cannot be
  built, the completion call raises, or the response has no first choice with a content),
  \<open>generate_daily_summary\<close> raises nothing and returns the sentence
  \<open>Today we had N GitHub activities including T. Great progress on our projects!\<close>, where
  \<open>N\<close> is the number of events and \<open>T\<close> lists, separated by a comma and a space, the
  types that occur in the list, each once. The order of the types is the one in which
  Python iterates the set; \<open>set_law\<close> says of \<open>set_iter\<close> what every Python set satisfies.
\<close>

theorem daily_summary_fallback:
  assumes dicts: "list_all event_dict es"
    and et: "events_text L (JArr es) = Inr text"
    and fails: "request_summary C E client (daily_summary_prompt text) = Inl e"
    and set_law: "distinct (set_iter L (map type_str es))
                  \<and> set (set_iter L (map type_str es)) = set (map type_str es)"
  shows "\<exists>tys c.
           generate_daily_summary L C E client (JArr es)
             = Inr (''Today we had '' @ str_nat (length es) @ '' GitHub activities including ''
                    @ join '', '' tys @ ''. Great progress on our projects!'', c)
         \<and> distinct tys \<and> set tys = type_str ` set es"
proof -
  let ?tys = "set_iter L (map type_str es)"
  have "generate_daily_summary L C E client (JArr es)
          = Inr (''Today we had '' @ str_nat (length es) @ '' GitHub activities including ''
                 @ join '', '' ?tys @ ''. Great progress on our projects!'',
                 (case get_client C E client of Inl e \<Rightarrow> client | Inr c \<Rightarrow> c))"
    by (simp add: generate_daily_summary_def et fails fallback_summary_event_dicts [OF dicts])
  moreover have "distinct ?tys" and "set ?tys = type_str ` set es"
    using set_law by simp_all
  ultimately show ?thesis by blast
qed

theorem daily_summary_fallback_witness:
  "generate_daily_summary example_lib example_config failing_ai False
     (JArr [example_event,
            event_data ''push'' ''2025-01-01T10:00:00'' ''Pushed 1 commits to main in r'' (JObj []),
            example_event])
   = Inr (''Today we had 3 GitHub activities including push, release. Great progress on our projects!'',
          True)"
proof -
  let ?p = "event_data ''push'' ''2025-01-01T10:00:00'' ''Pushed 1 commits to main in r'' (JObj [])"
  let ?es = "[example_event, ?p, example_event]"
  have d: "list_all event_dict ?es"
    by (simp add: example_event_def event_data_def)
  obtain body where t: "events_text example_lib (JArr ?es) = Inr body"
    using events_text_event_dicts [OF d] by blast
  have f: "request_summary example_config failing_ai False (daily_summary_prompt body)
             = Inl APIError"
    by (simp add: request_summary_def get_client_def example_config_def failing_ai_def)
  have ty: "map type_str ?es = [''release'', ''push'', ''release'']"
    by (simp add: example_event_def event_data_def)
  have l: "distinct (set_iter example_lib (map type_str ?es))
           \<and> set (set_iter example_lib (map type_str ?es)) = set (map type_str ?es)"
    unfolding ty by (auto simp: example_lib_def)
  have g: "get_client example_config failing_ai False = Inr True"
    by (simp add: get_client_def example_config_def failing_ai_def)
  from daily_summary_fallback [OF d t f l] obtain tys c where
    r: "generate_daily_summary example_lib example_config failing_ai False (JArr ?es)
         = Inr (''Today we had '' @ str_nat (length ?es) @ '' GitHub activities including ''
                    @ join '', '' tys @ ''. Great progress on our projects!'', c)"
    by blast
  have "generate_daily_summary example_lib example_config failing_ai False (JArr ?es)
         = Inr (''Today we had 3 GitHub activities including push, release. Great progress on our projects!'', True)"
  proof -
    have si: "set_iter example_lib = remdups"
      by (simp add: example_lib_def)
    have fb: "fallback_summary example_lib (JArr ?es)
                = Inr ''Today we had 3 GitHub activities including push, release. Great progress on our projects!''"
      unfolding fallback_summary_event_dicts [OF d] ty si
      by (simp add: str_nat.simps digit_char_def)
    show ?thesis
      by (simp add: generate_daily_summary_def t f g fb)
  qed
  with r show ?thesis by simp
qed

text \<open>
  C10, as stated, fails: the exception is not always a \<open>KeyError\<close>. A dictionary with
  the number 5 under \<open>type\<close> and no \<open>summary\<close> lacks a key, and the function raises
  \<open>AttributeError\<close>, since \<open>event['type'].title()\<close> is evaluated before
  \<open>event['summary']\<close>.
\<close>

theorem daily_summary_missing_key_counterexample:
  "generate_daily_summary example_lib example_config failing_ai False
     (JArr [JObj [(''type'', JInt 5)]]) = Inl AttributeError"
  by (simp add: generate_daily_summary_def events_text_def event_line_def)

text \<open>
  C10, amended. The lines of the prompt are built before the \<open>try\<close> block, so:

  \<^item> for every list that contains a dictionary without \<open>type\<close> or without \<open>summary\<close>,
    \<open>generate_daily_summary\<close> raises an exception, whatever the model service does, instead
    of returning the fallback sentence;
  \<^item> the exception is \<open>KeyError\<close> when the events before that dictionary have a string
    under \<open>type\<close> and a value under \<open>summary\<close>, and the dictionary has no \<open>type\<close>, or has a
    string under \<open>type\<close> and no \<open>summary\<close>;
  \<^item> once the lines are built, the function returns a text whatever the model service
    does: the fallback covers the failures of the request to the model.
\<close>

theorem daily_summary_missing_key:
  "(JObj kvs \<in> set es \<and> (map_of kvs ''type'' = None \<or> map_of kvs ''summary'' = None)
      \<longrightarrow> (\<exists>err. generate_daily_summary L C E client (JArr es) = Inl err))
   \<and> (list_all event_dict good
       \<and> (map_of ks ''type'' = None
          \<or> (\<exists>t. map_of ks ''type'' = Some (JStr t)) \<and> map_of ks ''summary'' = None)
      \<longrightarrow> generate_daily_summary L C E client (JArr (good @ JObj ks # rest)) = Inl KeyError)
   \<and> (events_text L events = Inr body
      \<longrightarrow> (\<exists>s c. generate_daily_summary L C E client events = Inr (s, c)))"
proof -
  have 1: "\<exists>err. generate_daily_summary L C E client (JArr es) = Inl err"
    if m: "JObj kvs \<in> set es"
      and k: "map_of kvs ''type'' = None \<or> map_of kvs ''summary'' = None"
  proof -
    from event_line_lacks_key [OF k] obtain e where "event_line L (JObj kvs) = Inl e"
      by blast
    from map_result_fails [where f = "event_line L", OF m this] obtain e' where "map_result (event_line L) es = Inl e'"
      by blast
    then show ?thesis
      by (simp add: generate_daily_summary_def events_text_def)
  qed
  have 2: "generate_daily_summary L C E client (JArr (good @ JObj ks # rest)) = Inl KeyError"
    if g: "list_all event_dict good"
      and k: "map_of ks ''type'' = None
              \<or> (\<exists>t. map_of ks ''type'' = Some (JStr t)) \<and> map_of ks ''summary'' = None"
  proof -
    have l: "\<exists>v. event_line L y = Inr v" if "y \<in> set good" for y
    proof -
      from g that have "event_dict y"
        by (simp add: list_all_iff)
      then show ?thesis
        by (rule event_line_event_dict)
    qed
    have "map_result (event_line L) (good @ JObj ks # rest) = Inl KeyError"
      using l event_line_KeyError [OF k] by (rule map_result_first_failure [where f = "event_line L"])
    then show ?thesis
      by (simp add: generate_daily_summary_def events_text_def)
  qed
  have 3: "\<exists>s c. generate_daily_summary L C E client events = Inr (s, c)"
    if "events_text L events = Inr body"
    using that by (rule daily_summary_returns)
  from 1 2 3 show ?thesis
    by blast
qed

theorem daily_summary_missing_key_witness:
  "generate_daily_summary example_lib example_config failing_ai False
     (JArr [example_event, JObj [(''type'', JStr ''push'')], example_event]) = Inl KeyError
   \<and> (\<exists>err. generate_daily_summary example_lib example_config answering_ai False
               (JArr [JObj [(''summary'', JStr ''s'')]]) = Inl err)
   \<and> (\<exists>s c. generate_daily_summary example_lib example_config answering_ai False
               (JArr [example_event]) = Inr (s, c))"
proof -
  have 1: "list_all event_dict [example_event]"
    by (simp add: example_event_def event_data_def)
  obtain body where 2: "events_text example_lib (JArr [example_event]) = Inr body"
    using events_text_event_dicts [OF 1] by blast
  show ?thesis
    using 1 2 daily_summary_missing_key
      [where L = example_lib and C = example_config and E = failing_ai and client = False
         and good = "[example_event]" and ks = "[(''type'', JStr ''push'')]"
         and rest = "[example_event]"]
      daily_summary_missing_key
      [where L = example_lib and C = example_config and E = answering_ai and client = False
         and kvs = "[(''summary'', JStr ''s'')]" and es = "[JObj [(''summary'', JStr ''s'')]]"
         and events = "JArr [example_event]" and body = body]
    by simp
qed

end
